theory Spec2Isabelle
  imports Complex_Main "HOL-Library.Word"
begin

section \<open>FluxCover: the export compositor and the content generator\<close>

text \<open>
  A shallow embedding of \<^verbatim>\<open>getCanvasDataURL\<close> (the imperative handle of the
  DiffuseShader component) and of the chat-completions variant of
  \<^verbatim>\<open>generateCreativeContent\<close>.

  Conventions of the embedding:
  \<^item> a JavaScript number that holds a pixel count is an \<open>int\<close>; a number that may be
    fractional (scale factor, blur radius, animation time) is a \<open>rat\<close> that stands for
    the binary64 value nearest to it, and a product of such numbers is rounded to binary64
    as the machine rounds it; \<^verbatim>\<open>Math.floor\<close> and \<^verbatim>\<open>Math.ceil\<close> are \<open>floor\<close> and
    \<open>ceiling\<close>;
  \<^item> a \<^verbatim>\<open>Uint8Array\<close> is a list of bytes;
  \<^item> an exception is the value \<open>Throw e\<close>, a normal return is \<open>Return v\<close>;
  \<^item> \<^verbatim>\<open>null\<close> and \<^verbatim>\<open>undefined\<close> results are \<open>None\<close>;
  \<^item> browser objects mutated by the code (the live canvas, the WebGL draw calls, the 2D
    contexts asked for) are fields of an explicit state that is passed and returned;
  \<^item> assigning a width or a height to a canvas stores the number assigned (what the DOM
    does with a negative or an oversized number is outside the model);
  \<^item> the default values of optional parameters are left to the caller: every argument is
    explicit.
\<close>

subsection \<open>Completions\<close>

datatype js_error = RangeError | IndexSizeError | InvalidStateError | TypeError | SyntaxError | Error string

datatype 'a completion = Return 'a | Throw js_error

subsection \<open>Numbers\<close>

text \<open>
  A JavaScript number is a binary64 value; a finite one is represented by the rational it
  denotes. \<open>fl x\<close> is the binary64 value nearest to \<open>x\<close>, ties to the even significand:
  with \<open>2 ^ e \<le> \<bar>x\<bar> < 2 ^ (e + 1)\<close>, the significand of 53 bits is \<open>\<bar>x\<bar> / 2 ^ (e - 52)\<close>
  rounded to an integer. A rational argument of the embedding stands for the number nearest
  to it, as the literal \<^verbatim>\<open>1.4\<close> does. Exponents are not bounded: overflow to
  \<^verbatim>\<open>Infinity\<close>, subnormal numbers and \<^verbatim>\<open>NaN\<close> are outside the model.
\<close>

function bit_length :: "int \<Rightarrow> int" where
  "bit_length n = (if n \<le> 0 then 0 else 1 + bit_length (n div 2))"
  by pat_completeness auto
termination
  by (relation "measure nat") auto

declare bit_length.simps [simp del]

definition pow2 :: "int \<Rightarrow> rat" where
  "pow2 e = (if 0 \<le> e then 2 ^ nat e else 1 / 2 ^ nat (- e))"

text \<open>
  The exponent \<open>e\<close> of a positive \<open>x = p / q\<close>: the bit lengths of \<open>p\<close> and \<open>q\<close> give it
  up to one, and the comparison settles it.
\<close>

definition binade :: "rat \<Rightarrow> int" where
  "binade x =
     (case quotient_of x of (p, q) \<Rightarrow>
        (let d = bit_length p - bit_length q
         in if pow2 d \<le> x then d else d - 1))"

definition round_half_even :: "rat \<Rightarrow> int" where
  "round_half_even r =
     (let f = \<lfloor>r\<rfloor>; d = r - of_int f
      in if d < 1 / 2 then f
         else if 1 / 2 < d then f + 1
         else if even f then f else f + 1)"

definition fl :: "rat \<Rightarrow> rat" where
  "fl x =
     (if x = 0 then 0
      else (let u = pow2 (binade \<bar>x\<bar> - 52)
            in sgn x * of_int (round_half_even (\<bar>x\<bar> / u)) * u))"

text \<open>\<^verbatim>\<open>a * b\<close> on numbers: the exact product, rounded once.\<close>

definition fmul :: "rat \<Rightarrow> rat \<Rightarrow> rat" where
  "fmul a b = fl (fl a * fl b)"

subsection \<open>Typed arrays\<close>

type_synonym byte = "8 word"

text \<open>\<^verbatim>\<open>new Uint8Array(n)\<close>: \<open>n\<close> zero bytes.\<close>

definition new_Uint8Array :: "nat \<Rightarrow> byte list" where
  "new_Uint8Array n = replicate n 0"

text \<open>
  \<^verbatim>\<open>a.subarray(begin, end)\<close> for non-negative arguments: both ends are clamped to
  the length of the array, and an end before the begin gives the empty view.
\<close>

definition subarray :: "byte list \<Rightarrow> nat \<Rightarrow> nat \<Rightarrow> byte list" where
  "subarray a b e = take (e - b) (drop b a)"

text \<open>
  \<^verbatim>\<open>target.set(source, offset)\<close>: copies \<open>source\<close> into \<open>target\<close> from \<open>offset\<close> on;
  raises RangeError (here \<open>None\<close>) when the source does not fit.
\<close>

definition typed_set :: "byte list \<Rightarrow> byte list \<Rightarrow> nat \<Rightarrow> byte list option" where
  "typed_set target source offset =
     (if offset + length source > length target then None
      else Some (take offset target @ source @ drop (offset + length source) target))"

subsection \<open>Step 4 of the capture: the vertical flip\<close>

text \<open>
  \<^verbatim>\<open>
  for (let i = 0; i < targetHeight; i++) {
    const srcRow = i * targetWidth * 4;
    const dstRow = (targetHeight - i - 1) * targetWidth * 4;
    flippedPixels.set(pixels.subarray(srcRow, srcRow + targetWidth * 4), dstRow);
  }
  \<close>
  The loop, from row \<open>i\<close> on, with the destination buffer as accumulator.
\<close>

function flip_loop :: "nat \<Rightarrow> nat \<Rightarrow> nat \<Rightarrow> byte list \<Rightarrow> byte list \<Rightarrow> byte list option" where
  "flip_loop i targetWidth targetHeight pixels flippedPixels =
     (if i < targetHeight then
        (let srcRow = i * targetWidth * 4;
             dstRow = (targetHeight - i - 1) * targetWidth * 4
         in case typed_set flippedPixels (subarray pixels srcRow (srcRow + targetWidth * 4)) dstRow of
              None \<Rightarrow> None
            | Some flippedPixels' \<Rightarrow> flip_loop (i + 1) targetWidth targetHeight pixels flippedPixels')
      else Some flippedPixels)"
  by pat_completeness auto
termination
  by (relation "measure (\<lambda>(i, w, h, p, f). h - i)") auto

declare flip_loop.simps [simp del]

text \<open>
  The flip of a whole readback (lines 83 to 88): the destination is a fresh
  \<^verbatim>\<open>new Uint8Array(targetWidth * targetHeight * 4)\<close>. The dimensions are the
  numbers the caller computed; the loop counts rows from 0.
\<close>

definition flipY :: "int \<Rightarrow> int \<Rightarrow> byte list \<Rightarrow> byte list option" where
  "flipY targetWidth targetHeight pixels =
     flip_loop 0 (nat targetWidth) (nat targetHeight) pixels
       (new_Uint8Array (nat (targetWidth * targetHeight * 4)))"

text \<open>Scanline \<open>i\<close> of an RGBA buffer of width \<open>w\<close>: the \<open>w * 4\<close> bytes from \<open>i * w * 4\<close> on.\<close>

definition scanline :: "nat \<Rightarrow> byte list \<Rightarrow> nat \<Rightarrow> byte list" where
  "scanline w buf i = subarray buf (i * w * 4) (i * w * 4 + w * 4)"

subsection \<open>2D canvases\<close>

text \<open>
  A 2D canvas is its size and the drawing calls made on it, oldest first. A drawing call
  records its arguments and the context state it reads (\<^verbatim>\<open>imageSmoothingEnabled\<close>,
  and the radius of a \<^verbatim>\<open>blur(..px)\<close> in \<^verbatim>\<open>filter\<close>, if one is set):
  \<open>DrawImage img (sx, sy, sw, sh) (dx, dy, dw, dh) smoothing blur\<close>.
\<close>

type_synonym rect = "int \<times> int \<times> int \<times> int"

record image_data =
  data :: "byte list"
  iwidth :: int
  iheight :: int

datatype canvas2d = Canvas2D (cwidth: int) (cheight: int) (draws: "draw list")
and draw =
    PutImageData image_data int int
  | DrawImage canvas2d rect rect bool "rat option"

record context2d =
  target :: canvas2d
  imageSmoothingEnabled :: bool
  ctx_filter :: "rat option"

text \<open>
  \<^verbatim>\<open>document.createElement('canvas')\<close> followed by the assignments of \<^verbatim>\<open>width\<close> and
  \<^verbatim>\<open>height\<close>.
\<close>

definition createCanvas :: "int \<Rightarrow> int \<Rightarrow> canvas2d" where
  "createCanvas w h = Canvas2D w h []"

definition add_draw :: "context2d \<Rightarrow> draw \<Rightarrow> context2d" where
  "add_draw ctx d =
     ctx\<lparr>target := Canvas2D (cwidth (target ctx)) (cheight (target ctx)) (draws (target ctx) @ [d])\<rparr>"

definition putImageData :: "context2d \<Rightarrow> image_data \<Rightarrow> int \<Rightarrow> int \<Rightarrow> context2d" where
  "putImageData ctx imageData dx dy = add_draw ctx (PutImageData imageData dx dy)"

text \<open>The three overloads of \<^verbatim>\<open>drawImage\<close>, by number of coordinates.\<close>

definition drawImage9 ::
  "context2d \<Rightarrow> canvas2d \<Rightarrow> int \<Rightarrow> int \<Rightarrow> int \<Rightarrow> int \<Rightarrow> int \<Rightarrow> int \<Rightarrow> int \<Rightarrow> int \<Rightarrow> context2d" where
  "drawImage9 ctx img sx sy sw sh dx dy dw dh =
     add_draw ctx (DrawImage img (sx, sy, sw, sh) (dx, dy, dw, dh)
                     (imageSmoothingEnabled ctx) (ctx_filter ctx))"

definition drawImage5 :: "context2d \<Rightarrow> canvas2d \<Rightarrow> int \<Rightarrow> int \<Rightarrow> int \<Rightarrow> int \<Rightarrow> context2d" where
  "drawImage5 ctx img dx dy dw dh =
     drawImage9 ctx img 0 0 (cwidth img) (cheight img) dx dy dw dh"

definition drawImage3 :: "context2d \<Rightarrow> canvas2d \<Rightarrow> int \<Rightarrow> int \<Rightarrow> context2d" where
  "drawImage3 ctx img dx dy =
     drawImage9 ctx img 0 0 (cwidth img) (cheight img) dx dy (cwidth img) (cheight img)"

text \<open>
  \<^verbatim>\<open>new ImageData(data, sw, sh)\<close>, with the checks of the HTML standard: the data must be
  a non-zero multiple of four bytes (InvalidStateError), and its pixels must make exactly
  \<open>sh\<close> rows of \<open>sw\<close> (IndexSizeError). \<^verbatim>\<open>new Uint8ClampedArray(bytes)\<close> copies the bytes.
\<close>

definition new_ImageData :: "byte list \<Rightarrow> int \<Rightarrow> int \<Rightarrow> js_error + image_data" where
  "new_ImageData bytes sw sh =
     (if length bytes = 0 \<or> length bytes mod 4 \<noteq> 0 then Inl InvalidStateError
      else if sw \<le> 0 \<or> int (length bytes div 4) mod sw \<noteq> 0 then Inl IndexSizeError
      else if int (length bytes div 4) div sw \<noteq> sh then Inl IndexSizeError
      else Inr \<lparr>data = bytes, iwidth = sw, iheight = sh\<rparr>)"

text \<open>
  \<^verbatim>\<open>canvas.toDataURL('image/png')\<close>: the string returned for a canvas is represented by
  the canvas, \<open>PNG c\<close>; a canvas of no width or no height gives the string \<^verbatim>\<open>data:,\<close>,
  \<open>NoImage\<close>. Whether \<open>PNG c\<close> holds an image depends on the browser, see \<open>image_size\<close>
  below.
\<close>

datatype data_url = PNG canvas2d | NoImage

definition toDataURL :: "canvas2d \<Rightarrow> data_url" where
  "toDataURL c = (if cwidth c \<le> 0 \<or> cheight c \<le> 0 then NoImage else PNG c)"

subsection \<open>What a canvas shows\<close>

text \<open>
  The pixel of a canvas at \<open>(x, y)\<close>, for the drawing calls this component makes without
  a filter: \<^verbatim>\<open>putImageData\<close> replaces pixels; \<^verbatim>\<open>drawImage\<close> without smoothing takes for
  destination pixel \<open>i\<close> of \<open>dw\<close> the source pixel \<open>i * sw div dw\<close> (nearest neighbour) and
  composites it source-over. \<open>None\<close> stands for a pixel this model does not determine: a
  filtered draw, a smoothed rescaling, or the blend of a translucent pixel over a painted one.
  A canvas stores the four bytes of a pixel as they are.
\<close>

type_synonym rgba = "byte \<times> byte \<times> byte \<times> byte"

definition transparent :: rgba where
  "transparent = (0, 0, 0, 0)"

definition alpha :: "rgba \<Rightarrow> byte" where
  "alpha p = (case p of (r, g, b, a) \<Rightarrow> a)"

definition image_pixel :: "image_data \<Rightarrow> int \<Rightarrow> int \<Rightarrow> rgba" where
  "image_pixel img x y =
     (let k = nat (4 * (y * iwidth img + x))
      in (data img ! k, data img ! (k + 1), data img ! (k + 2), data img ! (k + 3)))"

definition source_over :: "rgba \<Rightarrow> rgba \<Rightarrow> rgba option" where
  "source_over s d =
     (if d = transparent \<or> alpha s = 255 then Some s
      else if alpha s = 0 then Some d
      else None)"

definition in_rect :: "rect \<Rightarrow> int \<Rightarrow> int \<Rightarrow> bool" where
  "in_rect r x y =
     (case r of (rx, ry, rw, rh) \<Rightarrow> rx \<le> x \<and> x < rx + rw \<and> ry \<le> y \<and> y < ry + rh)"

fun canvas_pixel :: "canvas2d \<Rightarrow> int \<Rightarrow> int \<Rightarrow> rgba option"
and paint :: "draw \<Rightarrow> (int \<Rightarrow> int \<Rightarrow> rgba option) \<Rightarrow> int \<Rightarrow> int \<Rightarrow> rgba option" where
  "canvas_pixel (Canvas2D w h ds) x y =
     (if 0 \<le> x \<and> x < w \<and> 0 \<le> y \<and> y < h
      then fold paint ds (\<lambda>x y. Some transparent) x y
      else Some transparent)"
| "paint (PutImageData img dx dy) below x y =
     (if in_rect (dx, dy, iwidth img, iheight img) x y
      then Some (image_pixel img (x - dx) (y - dy))
      else below x y)"
| "paint (DrawImage src (sx, sy, sw, sh) (dx, dy, dw, dh) smooth filt) below x y =
     (if filt \<noteq> None then None
      else if in_rect (dx, dy, dw, dh) x y then
        (if smooth \<and> (sw \<noteq> dw \<or> sh \<noteq> dh) then None
         else case (canvas_pixel src (sx + ((x - dx) * sw) div dw) (sy + ((y - dy) * sh) div dh),
                    below x y) of
                (Some s, Some d) \<Rightarrow> source_over s d
              | _ \<Rightarrow> None)
      else below x y)"

subsection \<open>The component and its environment\<close>

datatype webgl = WebGL

datatype program = Program

record live_canvas =
  width :: int
  height :: int
  clientWidth :: int
  clientHeight :: int

text \<open>
  The refs of the component, and two logs of what it did to the browser: the frames drawn
  by \<^verbatim>\<open>renderFrame\<close> as (width, height, time), and the sizes of the canvases on which
  \<^verbatim>\<open>getContext('2d')\<close> was called, both oldest first.
\<close>

type_synonym frame = "int \<times> int \<times> rat"

record component =
  glRef :: "webgl option"
  programRef :: "program option"
  canvasRef :: "live_canvas option"
  timeRef :: rat
  frames :: "frame list"
  contexts2d :: "(int \<times> int) list"

text \<open>
  What the code cannot decide: \<open>readback w h t k\<close> is byte \<open>k\<close> of what
  \<^verbatim>\<open>gl.readPixels(0, 0, w, h, RGBA, UNSIGNED_BYTE, _)\<close> delivers after the shader has drawn
  a frame of \<open>w\<close> by \<open>h\<close> at time \<open>t\<close>; \<open>context2d_available k\<close> tells whether the
  \<open>k\<close>-th call of \<^verbatim>\<open>getContext('2d')\<close> yields a context rather than \<^verbatim>\<open>null\<close>; and
  \<open>bitmap_available w h\<close> tells whether the browser backs a 2D canvas of \<open>w\<close> by \<open>h\<close>
  with a bitmap (browsers bound the sides and the area of a canvas).
\<close>

record environment =
  readback :: "int \<Rightarrow> int \<Rightarrow> rat \<Rightarrow> nat \<Rightarrow> byte"
  context2d_available :: "nat \<Rightarrow> bool"
  bitmap_available :: "int \<Rightarrow> int \<Rightarrow> bool"

text \<open>
  The image that a data URL holds, by its size: \<^verbatim>\<open>toDataURL\<close> of a canvas that the
  browser does not back with a bitmap is the string \<^verbatim>\<open>data:,\<close>, which holds none.
\<close>

definition image_size :: "environment \<Rightarrow> data_url \<Rightarrow> (int \<times> int) option" where
  "image_size env url =
     (case url of
        NoImage \<Rightarrow> None
      | PNG c \<Rightarrow>
          if bitmap_available env (cwidth c) (cheight c) then Some (cwidth c, cheight c)
          else None)"

text \<open>
  \<^verbatim>\<open>renderFrame(gl, program, width, height, time)\<close>: sets the viewport and the uniforms
  and draws; the embedding keeps the size and the time of the frame.
\<close>

definition renderFrame :: "component \<Rightarrow> webgl \<Rightarrow> program \<Rightarrow> int \<Rightarrow> int \<Rightarrow> rat \<Rightarrow> component" where
  "renderFrame st gl program w h time = st\<lparr>frames := frames st @ [(w, h, time)]\<rparr>"

text \<open>\<^verbatim>\<open>canvas.width = w; canvas.height = h\<close> on the live canvas.\<close>

definition set_canvas_size :: "component \<Rightarrow> int \<Rightarrow> int \<Rightarrow> component" where
  "set_canvas_size st w h =
     st\<lparr>canvasRef := map_option (\<lambda>canvas. canvas\<lparr>width := w, height := h\<rparr>) (canvasRef st)\<rparr>"

definition readPixels :: "environment \<Rightarrow> int \<Rightarrow> int \<Rightarrow> rat \<Rightarrow> byte list \<Rightarrow> byte list" where
  "readPixels env w h time pixels = map (readback env w h time) [0..<length pixels]"

definition getContext2d :: "environment \<Rightarrow> component \<Rightarrow> canvas2d \<Rightarrow> context2d option \<times> component" where
  "getContext2d env st c =
     (if context2d_available env (length (contexts2d st))
      then Some \<lparr>target = c, imageSmoothingEnabled = True, ctx_filter = None\<rparr>
      else None,
      st\<lparr>contexts2d := contexts2d st @ [(cwidth c, cheight c)]\<rparr>)"

subsection \<open>getCanvasDataURL\<close>

text \<open>
  Lines 98 to 100 and 109 to 111: the live canvas gets its size back and the frame is
  drawn again at that size.
\<close>

definition restore :: "component \<Rightarrow> webgl \<Rightarrow> program \<Rightarrow> int \<Rightarrow> int \<Rightarrow> component" where
  "restore st gl program originalWidth originalHeight =
     renderFrame (set_canvas_size st originalWidth originalHeight) gl program
       originalWidth originalHeight (timeRef st)"

text \<open>
  Lines 130 to 157: the padded canvas is assembled from the capture, smoothing off: the
  centre, the four edges, the four corners.
\<close>

definition assemble_clamped :: "context2d \<Rightarrow> canvas2d \<Rightarrow> int \<Rightarrow> int \<Rightarrow> int \<Rightarrow> context2d" where
  "assemble_clamped cCtx0 tempCanvas targetWidth targetHeight pad =
     (let cCtx = cCtx0\<lparr>imageSmoothingEnabled := False\<rparr>;
          cCtx = drawImage5 cCtx tempCanvas pad pad targetWidth targetHeight;
          cCtx = drawImage9 cCtx tempCanvas 0 0 1 targetHeight 0 pad pad targetHeight;
          cCtx = drawImage9 cCtx tempCanvas (targetWidth - 1) 0 1 targetHeight
                   (targetWidth + pad) pad pad targetHeight;
          cCtx = drawImage9 cCtx tempCanvas 0 0 targetWidth 1 pad 0 targetWidth pad;
          cCtx = drawImage9 cCtx tempCanvas 0 (targetHeight - 1) targetWidth 1
                   pad (targetHeight + pad) targetWidth pad;
          cCtx = drawImage9 cCtx tempCanvas 0 0 1 1 0 0 pad pad;
          cCtx = drawImage9 cCtx tempCanvas (targetWidth - 1) 0 1 1 (targetWidth + pad) 0 pad pad;
          cCtx = drawImage9 cCtx tempCanvas 0 (targetHeight - 1) 1 1 0 (targetHeight + pad) pad pad;
          cCtx = drawImage9 cCtx tempCanvas (targetWidth - 1) (targetHeight - 1) 1 1
                   (targetWidth + pad) (targetHeight + pad) pad pad
      in cCtx)"

text \<open>
  Lines 114 to 173, entered when \<^verbatim>\<open>blurRadius > 0\<close>: \<open>Some url\<close> is the return of
  line 170; \<open>None\<close> means that a context was missing and control reaches line 175.
\<close>

definition blur_export ::
  "environment \<Rightarrow> component \<Rightarrow> canvas2d \<Rightarrow> int \<Rightarrow> int \<Rightarrow> rat \<Rightarrow> rat \<Rightarrow> data_url option \<times> component" where
  "blur_export env st tempCanvas targetWidth targetHeight scaleFactor blurRadius =
     (let scaledBlur = fmul blurRadius scaleFactor;
          pad = \<lceil>fmul scaledBlur 3\<rceil>;
          clampedCanvas = createCanvas (targetWidth + pad * 2) (targetHeight + pad * 2);
          (cCtx, st1) = getContext2d env st clampedCanvas
      in case cCtx of
           None \<Rightarrow> (None, st1)
         | Some cCtx \<Rightarrow>
             (let clamped = target (assemble_clamped cCtx tempCanvas targetWidth targetHeight pad);
                  finalCanvas = createCanvas targetWidth targetHeight;
                  (fCtx, st2) = getContext2d env st1 finalCanvas
              in case fCtx of
                   None \<Rightarrow> (None, st2)
                 | Some fCtx \<Rightarrow>
                     (let fCtx = fCtx\<lparr>ctx_filter := Some scaledBlur\<rparr>;
                          fCtx = drawImage3 fCtx clamped (- pad) (- pad)
                      in (Some (toDataURL (target fCtx)), st2))))"

text \<open>
  Lines 79 to 88: the readback buffer is allocated and filled, then flipped.
  \<^verbatim>\<open>new Uint8Array(n)\<close> raises RangeError for a negative \<open>n\<close>.
\<close>

definition capture_pixels :: "environment \<Rightarrow> int \<Rightarrow> int \<Rightarrow> rat \<Rightarrow> js_error + byte list" where
  "capture_pixels env targetWidth targetHeight time =
     (if targetWidth * targetHeight * 4 < 0 then Inl RangeError
      else
        (let pixels = readPixels env targetWidth targetHeight time
                        (new_Uint8Array (nat (targetWidth * targetHeight * 4)))
         in case flipY targetWidth targetHeight pixels of
              None \<Rightarrow> Inl RangeError
            | Some flippedPixels \<Rightarrow> Inr flippedPixels))"

text \<open>Lines 69 and 70: \<^verbatim>\<open>Math.floor(canvas.clientWidth * scaleFactor)\<close>, and so for the height.\<close>

definition scaled :: "int \<Rightarrow> rat \<Rightarrow> int" where
  "scaled client scaleFactor = \<lfloor>fmul (of_int client) scaleFactor\<rfloor>"

text \<open>
  Lines 58 to 176. The result is the completion of the call and the state it leaves.
\<close>

definition getCanvasDataURL ::
  "environment \<Rightarrow> component \<Rightarrow> rat \<Rightarrow> rat \<Rightarrow> data_url option completion \<times> component" where
  "getCanvasDataURL env st scaleFactor blurRadius =
     (case (glRef st, programRef st, canvasRef st) of
        (Some gl, Some program, Some canvas) \<Rightarrow>
          (let originalWidth = width canvas;
               originalHeight = height canvas;
               targetWidth = scaled (clientWidth canvas) scaleFactor;
               targetHeight = scaled (clientHeight canvas) scaleFactor;
               st1 = set_canvas_size st targetWidth targetHeight;
               st1 = renderFrame st1 gl program targetWidth targetHeight (timeRef st1)
           in case capture_pixels env targetWidth targetHeight (timeRef st1) of
                Inl e \<Rightarrow> (Throw e, st1)
              | Inr flippedPixels \<Rightarrow>
                  (let tempCanvas = createCanvas targetWidth targetHeight;
                       (ctx, st2) = getContext2d env st1 tempCanvas
                   in case ctx of
                        None \<Rightarrow> (Return None, restore st2 gl program originalWidth originalHeight)
                      | Some ctx \<Rightarrow>
                          (case new_ImageData flippedPixels targetWidth targetHeight of
                             Inl e \<Rightarrow> (Throw e, st2)
                           | Inr imageData \<Rightarrow>
                               (let tempCanvas = target (putImageData ctx imageData 0 0);
                                    st3 = restore st2 gl program originalWidth originalHeight
                                in if blurRadius > 0 then
                                     (case blur_export env st3 tempCanvas targetWidth targetHeight
                                             scaleFactor blurRadius of
                                        (Some url, st4) \<Rightarrow> (Return (Some url), st4)
                                      | (None, st4) \<Rightarrow> (Return (Some (toDataURL tempCanvas)), st4))
                                   else (Return (Some (toDataURL tempCanvas)), st3)))))
      | _ \<Rightarrow> (Return None, st))"

text \<open>What the caller gets: whether the call returned a string, and the image in it.\<close>

definition returns_url :: "data_url option completion \<Rightarrow> bool" where
  "returns_url r = (case r of Return (Some url) \<Rightarrow> True | _ \<Rightarrow> False)"

definition exported_image_size ::
  "environment \<Rightarrow> data_url option completion \<Rightarrow> (int \<times> int) option" where
  "exported_image_size env r =
     (case r of Return (Some url) \<Rightarrow> image_size env url | _ \<Rightarrow> None)"

section \<open>generateCreativeContent, the chat-completions variant\<close>

subsection \<open>JSON values as JavaScript sees them\<close>

text \<open>
  What \<^verbatim>\<open>JSON.parse\<close> and \<^verbatim>\<open>res.json()\<close> can deliver. An object is the list of its
  properties. \<^verbatim>\<open>undefined\<close> is \<open>None\<close> of type \<open>json option\<close>. The type annotations of
  the source (\<^verbatim>\<open>GeneratedContent\<close>) are erased when the code runs, so they are not part
  of the values.
\<close>

datatype json =
    JNull
  | JBool bool
  | JNum rat
  | JStr string
  | JArr "json list"
  | JObj "(string \<times> json) list"

text \<open>\<^verbatim>\<open>!v\<close> is \<open>\<not> truthy v\<close>.\<close>

fun truthy :: "json option \<Rightarrow> bool" where
  "truthy None = False"
| "truthy (Some JNull) = False"
| "truthy (Some (JBool b)) = b"
| "truthy (Some (JNum n)) = (n \<noteq> 0)"
| "truthy (Some (JStr s)) = (s \<noteq> [])"
| "truthy (Some (JArr xs)) = True"
| "truthy (Some (JObj kvs)) = True"

text \<open>
  \<^verbatim>\<open>v?.name\<close>, for the names the code reads (choices, message, content, text, title,
  subtitle, colors): only an object can have them; \<^verbatim>\<open>null\<close> and \<^verbatim>\<open>undefined\<close> give
  \<^verbatim>\<open>undefined\<close>. The code reads \<^verbatim>\<open>parsed.title\<close> without \<^verbatim>\<open>?.\<close> only after
  \<^verbatim>\<open>!parsed\<close> was found false, where both agree.
\<close>

fun get_prop :: "json option \<Rightarrow> string \<Rightarrow> json option" where
  "get_prop (Some (JObj kvs)) name = map_of kvs name"
| "get_prop v name = None"

text \<open>\<^verbatim>\<open>v?.[0]\<close>: the first element of an array, the first character of a string.\<close>

fun index0 :: "json option \<Rightarrow> json option" where
  "index0 (Some (JArr xs)) = (case xs of [] \<Rightarrow> None | x # rest \<Rightarrow> Some x)"
| "index0 (Some (JStr s)) = (case s of [] \<Rightarrow> None | c # rest \<Rightarrow> Some (JStr [c]))"
| "index0 (Some (JObj kvs)) = map_of kvs ''0''"
| "index0 v = None"

text \<open>\<^verbatim>\<open>a ?? b\<close>.\<close>

fun nullish :: "json option \<Rightarrow> bool" where
  "nullish None = True"
| "nullish (Some JNull) = True"
| "nullish v = False"

definition coalesce :: "json option \<Rightarrow> json option \<Rightarrow> json option" where
  "coalesce a b = (if nullish a then b else a)"

text \<open>\<^verbatim>\<open>Array.isArray(v) && v.length === 5\<close>.\<close>

fun is_array_of_5 :: "json option \<Rightarrow> bool" where
  "is_array_of_5 (Some (JArr xs)) = (length xs = 5)"
| "is_array_of_5 v = False"

subsection \<open>The fallback pattern of line 213\<close>

text \<open>
  The pattern is written with doubled backslashes inside the class, and in a regular
  expression literal a doubled backslash is one backslash character: the class holds the
  backslash, \<open>s\<close> and \<open>S\<close>. \<^verbatim>\<open>raw.match\<close> gives the leftmost match: an opening brace,
  the longest run of class characters, a closing brace (a shorter run would end before a
  class character, never before a brace).
\<close>

definition in_class :: "char \<Rightarrow> bool" where
  "in_class c = (c = CHR 0x5C \<or> c = CHR ''s'' \<or> c = CHR ''S'')"

fun regex_match :: "string \<Rightarrow> string option" where
  "regex_match [] = None"
| "regex_match (c # cs) =
     (if c = CHR ''{'' then
        (case dropWhile in_class cs of
           d # rest \<Rightarrow>
             if d = CHR ''}'' then Some (c # takeWhile in_class cs @ [d]) else regex_match cs
         | [] \<Rightarrow> regex_match cs)
      else regex_match cs)"

subsection \<open>The service\<close>

datatype lang = En | Zh

record response =
  ok :: bool
  body_json :: "json option"

text \<open>
  What the code cannot decide: the key in the process environment, the outcome of
  \<^verbatim>\<open>fetch\<close> for the request that \<open>mood\<close> and \<open>lang\<close> determine (\<open>None\<close>: the promise
  rejects), the outcome of \<^verbatim>\<open>res.json()\<close> in \<open>body_json\<close> (\<open>None\<close>: it rejects), and
  \<^verbatim>\<open>JSON.parse\<close> (\<open>None\<close>: SyntaxError), which is applied to whatever value \<open>raw\<close> holds.
\<close>

record service =
  API_KEY :: "string option"
  fetch :: "string \<Rightarrow> lang \<Rightarrow> response option"
  JSON_parse :: "json \<Rightarrow> json option"

datatype 'a promise = Resolved 'a | Rejected js_error

text \<open>Line 205: the content of the first choice, or its text, or the empty string.\<close>

definition extract_raw :: "json \<Rightarrow> json option" where
  "extract_raw json =
     coalesce
       (coalesce
          (get_prop (get_prop (index0 (get_prop (Some json) ''choices'')) ''message'') ''content'')
          (get_prop (index0 (get_prop (Some json) ''choices'')) ''text''))
       (Some (JStr []))"

text \<open>
  Lines 209 to 219: \<^verbatim>\<open>JSON.parse(raw)\<close>, and in its handler the pattern; a \<open>raw\<close> that
  is no string has no \<^verbatim>\<open>match\<close> method (TypeError).
\<close>

definition parse_response :: "service \<Rightarrow> json \<Rightarrow> js_error + json" where
  "parse_response env raw =
     (case JSON_parse env raw of
        Some parsed \<Rightarrow> Inr parsed
      | None \<Rightarrow>
          (case raw of
             JStr s \<Rightarrow>
               (case regex_match s of
                  Some m \<Rightarrow>
                    (case JSON_parse env (JStr m) of
                       Some parsed \<Rightarrow> Inr parsed
                     | None \<Rightarrow> Inl SyntaxError)
                | None \<Rightarrow> Inl (Error ''Failed to parse JSON from assistant response''))
           | _ \<Rightarrow> Inl TypeError))"

text \<open>Line 222, negated: the parsed value is returned when this holds.\<close>

definition shape_ok :: "json \<Rightarrow> bool" where
  "shape_ok parsed =
     (truthy (Some parsed) \<and> truthy (get_prop (Some parsed) ''title'') \<and>
      truthy (get_prop (Some parsed) ''subtitle'') \<and>
      is_array_of_5 (get_prop (Some parsed) ''colors''))"

text \<open>
  Lines 167 to 226, the body of the \<^verbatim>\<open>try\<close>: \<open>Inl\<close> is a throw or a rejected
  \<^verbatim>\<open>await\<close>. The messages of the errors are shortened; nothing reads them.
\<close>

definition try_generate :: "service \<Rightarrow> string \<Rightarrow> lang \<Rightarrow> js_error + json" where
  "try_generate env mood lang =
     (if API_KEY env = None \<or> API_KEY env = Some [] then Inl (Error ''Missing GRS AI API key'')
      else
        (case fetch env mood lang of
           None \<Rightarrow> Inl (Error ''fetch failed'')
         | Some res \<Rightarrow>
             if \<not> ok res then Inl (Error ''GRSAI API error'')
             else
               (case body_json res of
                  None \<Rightarrow> Inl SyntaxError
                | Some json \<Rightarrow>
                    (case extract_raw json of
                       None \<Rightarrow> Inl (Error ''No content returned from GRS AI'')
                     | Some raw \<Rightarrow>
                         if \<not> truthy (Some raw) then Inl (Error ''No content returned from GRS AI'')
                         else
                           (case parse_response env raw of
                              Inl e \<Rightarrow> Inl e
                            | Inr parsed \<Rightarrow>
                                if \<not> shape_ok parsed
                                then Inl (Error ''Parsed response does not match expected GeneratedContent shape'')
                                else Inr parsed)))))"

text \<open>
  Lines 229 to 233, the object of the \<^verbatim>\<open>catch\<close>; the Chinese texts are their UTF-8
  bytes.
\<close>

definition fallback :: "lang \<Rightarrow> json" where
  "fallback lang =
     JObj
       [(''title'',
         JStr (if lang = Zh
               then [CHR 0xE7, CHR 0x94, CHR 0x9F, CHR 0xE6, CHR 0x88, CHR 0x90,
                     CHR 0xE9, CHR 0x94, CHR 0x99, CHR 0xE8, CHR 0xAF, CHR 0xAF]
               else ''Error Generating'')),
        (''subtitle'',
         JStr (if lang = Zh
               then [CHR 0xE8, CHR 0xAF, CHR 0xB7, CHR 0xE6, CHR 0xA3, CHR 0x80,
                     CHR 0xE6, CHR 0x9F, CHR 0xA5] @ ''API Key'' @
                    [CHR 0xE6, CHR 0x88, CHR 0x96, CHR 0xE9, CHR 0x87, CHR 0x8D,
                     CHR 0xE8, CHR 0xAF, CHR 0x95, CHR 0xE3, CHR 0x80, CHR 0x82]
               else ''Please check your API key or try again.'')),
        (''colors'',
         JArr [JStr ''#ff0000'', JStr ''#00ff00'', JStr ''#0000ff'', JStr ''#ffff00'',
               JStr ''#00ffff''])]"

text \<open>Lines 166 to 235: the \<^verbatim>\<open>try\<close> and its \<^verbatim>\<open>catch\<close>.\<close>

definition generateCreativeContent :: "service \<Rightarrow> string \<Rightarrow> lang \<Rightarrow> json promise" where
  "generateCreativeContent env mood lang =
     (case try_generate env mood lang of
        Inr parsed \<Rightarrow> Resolved parsed
      | Inl error \<Rightarrow> Resolved (fallback lang))"

text \<open>
  The reading of "a non-empty title" for a value of any type: a string that is not the
  empty string.
\<close>

fun nonempty_string :: "json option \<Rightarrow> bool" where
  "nonempty_string (Some (JStr s)) = (s \<noteq> [])"
| "nonempty_string v = False"

section \<open>Inputs for the examples\<close>

definition example_canvas :: live_canvas where
  "example_canvas = \<lparr>width = 3, height = 3, clientWidth = 2, clientHeight = 2\<rparr>"

definition example_component :: component where
  "example_component =
     \<lparr>glRef = Some WebGL, programRef = Some Program, canvasRef = Some example_canvas,
      timeRef = 7, frames = [], contexts2d = []\<rparr>"

text \<open>
  A canvas of the size of the end-to-end scenario, 300 by 400, shown at a pixel ratio
  of 1.5.
\<close>

definition poster_canvas :: live_canvas where
  "poster_canvas = \<lparr>width = 450, height = 600, clientWidth = 300, clientHeight = 400\<rparr>"

definition poster_component :: component where
  "poster_component =
     \<lparr>glRef = Some WebGL, programRef = Some Program, canvasRef = Some poster_canvas,
      timeRef = 7, frames = [], contexts2d = []\<rparr>"

text \<open>A browser that backs canvases of up to 32767 a side and 268435456 pixels.\<close>

definition browser_limit :: "int \<Rightarrow> int \<Rightarrow> bool" where
  "browser_limit w h = (w \<le> 32767 \<and> h \<le> 32767 \<and> w * h \<le> 268435456)"

text \<open>A readback whose byte \<open>k\<close> is \<open>k\<close>; the availability of the contexts is given.\<close>

definition example_env :: "(nat \<Rightarrow> bool) \<Rightarrow> environment" where
  "example_env available =
     \<lparr>readback = (\<lambda>w h t k. of_nat k), context2d_available = available,
      bitmap_available = browser_limit\<rparr>"

text \<open>
  A reply of the endpoint whose content is a JSON object with empty arrays as title and
  subtitle, and the value that \<^verbatim>\<open>JSON.parse\<close> gives for it.
\<close>

definition reply_text :: string where
  "reply_text = ''{'' @ [CHR 0x22] @ ''title'' @ [CHR 0x22] @ '': [], '' @
     [CHR 0x22] @ ''subtitle'' @ [CHR 0x22] @ '': [], '' @
     [CHR 0x22] @ ''colors'' @ [CHR 0x22] @ '': [1, 2, 3, 4, 5]}''"

definition reply_value :: json where
  "reply_value =
     JObj [(''title'', JArr []), (''subtitle'', JArr []),
           (''colors'', JArr [JNum 1, JNum 2, JNum 3, JNum 4, JNum 5])]"

definition example_service :: "string option \<Rightarrow> service" where
  "example_service key =
     \<lparr>API_KEY = key,
      fetch = (\<lambda>mood lang. Some \<lparr>ok = True, body_json = Some
                (JObj [(''choices'', JArr [JObj [(''message'',
                   JObj [(''role'', JStr ''assistant''), (''content'', JStr reply_text)])]])])\<rparr>),
      JSON_parse = (\<lambda>v. if v = JStr reply_text then Some reply_value else None)\<rparr>"

text \<open>Which of the calls of \<^verbatim>\<open>getContext('2d')\<close> yield a context.\<close>

definition all_contexts :: "nat \<Rightarrow> bool" where
  "all_contexts k = True"

definition first_context_only :: "nat \<Rightarrow> bool" where
  "first_context_only k = (k = 0)"

definition no_context :: "nat \<Rightarrow> bool" where
  "no_context k = False"

section \<open>Verification\<close>

subsection \<open>Properties of the flip\<close>

lemma scanline_length:
  assumes "(i + 1) * (w * 4) \<le> length buf"
  shows "length (scanline w buf i) = w * 4"
  using assms by (simp add: scanline_def subarray_def)

lemma flip_loop_rows:
  assumes "i \<le> h" and "length px = h * (w * 4)" and "length acc = h * (w * 4)"
  shows "flip_loop i w h px acc =
           Some (concat (rev (map (scanline w px) [i..<h])) @ drop ((h - i) * (w * 4)) acc)"
  using assms
proof (induction i w h px acc rule: flip_loop.induct)
  case (1 i w h px acc)
  show ?case
  proof (cases "i < h")
    case False
    have "flip_loop i w h px acc = Some acc"
      using False by (simp add: flip_loop.simps [of i w h px acc])
    moreover from False "1.prems"(1) have "h - i = 0" by simp
    ultimately show ?thesis using False by simp
  next
    case True
    define d where "d = h - i - 1"
    have hd: "h - i = Suc d" and hd': "h - (i + 1) = d" and d_lt: "Suc d \<le> h"
      using True by (simp_all add: d_def)
    let ?row = "scanline w px i"
    have "(i + 1) * (w * 4) \<le> h * (w * 4)"
      using True by (intro mult_le_mono1) simp
    then have len_row: "length ?row = w * 4"
      using "1.prems"(2) by (simp add: scanline_length)
    have "Suc d * (w * 4) \<le> h * (w * 4)"
      using d_lt by (intro mult_le_mono1)
    then have fits: "d * (w * 4) + w * 4 \<le> length acc"
      using "1.prems"(3) by simp
    define acc' where "acc' = take (d * (w * 4)) acc @ ?row @ drop (d * (w * 4) + w * 4) acc"
    have set_ok: "typed_set acc ?row (d * (w * 4)) = Some acc'"
      using fits len_row by (simp add: typed_set_def acc'_def)
    have len_acc': "length acc' = h * (w * 4)"
      using fits len_row "1.prems"(3) by (simp add: acc'_def)
    have next_dst: "d * (w * 4) + w * 4 = (h - i) * (w * 4)"
      by (simp add: hd)
    have drop_acc': "drop (d * (w * 4)) acc' = ?row @ drop ((h - i) * (w * 4)) acc"
    proof -
      have "d * (w * 4) \<le> length acc" using fits by simp
      then have "drop (d * (w * 4)) acc' = ?row @ drop (d * (w * 4) + w * 4) acc"
        unfolding acc'_def by simp
      then show ?thesis by (simp only: next_dst)
    qed
    have set_ok': "typed_set acc (subarray px (i * w * 4) (i * w * 4 + w * 4)) ((h - i - 1) * w * 4)
                    = Some acc'"
      using set_ok by (simp add: scanline_def d_def mult.assoc)
    have IH: "flip_loop (i + 1) w h px acc' =
        Some (concat (rev (map (scanline w px) [i + 1..<h])) @ drop (d * (w * 4)) acc')"
      using "1.IH" [OF True refl refl set_ok'] True "1.prems"(2) len_acc' by (simp add: d_def)
    have unfold: "flip_loop i w h px acc = flip_loop (i + 1) w h px acc'"
      using True set_ok' by (simp add: flip_loop.simps [of i w h px acc])
    have upt: "[i..<h] = i # [i + 1..<h]"
      using True by (simp add: upt_conv_Cons)
    show ?thesis
      unfolding unfold IH drop_acc' upt by simp
  qed
qed

lemma scanline_concat:
  assumes "\<forall>row \<in> set rows. length row = w * 4" and "r < length rows"
  shows "scanline w (concat rows) r = rows ! r"
  using assms
proof (induction rows arbitrary: r)
  case Nil
  then show ?case by simp
next
  case (Cons row rows)
  show ?case
  proof (cases r)
    case 0
    with Cons.prems show ?thesis by (simp add: scanline_def subarray_def)
  next
    case (Suc r')
    with Cons.prems have "scanline w (concat rows) r' = rows ! r'"
      by (intro Cons.IH) simp_all
    moreover have "scanline w (concat (row # rows)) (Suc r') = scanline w (concat rows) r'"
      using Cons.prems(1) by (simp add: scanline_def subarray_def ac_simps)
    ultimately show ?thesis using Suc by simp
  qed
qed

lemma concat_scanlines:
  "concat (map (scanline w px) [0..<h]) = take (h * (w * 4)) px"
proof (induction h)
  case 0
  show ?case by simp
next
  case (Suc h)
  have "take (h * (w * 4)) px @ scanline w px h = take (h * (w * 4) + w * 4) px"
    by (simp add: scanline_def subarray_def take_add mult.assoc)
  with Suc show ?case by (simp add: add.commute)
qed

lemma flipY_rows:
  assumes "length px = w * h * 4"
  shows "flipY (int w) (int h) px = Some (concat (rev (map (scanline w px) [0..<h])))"
proof -
  have "int w * int h * 4 = int (w * h * 4)" by simp
  then have n: "nat (int w * int h * 4) = h * (w * 4)"
    by (simp only: nat_int) (simp add: ac_simps)
  have len: "length px = h * (w * 4)" using assms by (simp add: ac_simps)
  have len0: "length (new_Uint8Array (h * (w * 4))) = h * (w * 4)"
    by (simp add: new_Uint8Array_def)
  from flip_loop_rows [OF le0 len len0] len0 show ?thesis
    unfolding flipY_def n by simp
qed

lemma scanline_rows_length:
  assumes "length px = h * (w * 4)"
  shows "\<forall>row \<in> set (rev (map (scanline w px) [0..<h])). length row = w * 4"
proof -
  have "length (scanline w px i) = w * 4" if "i < h" for i
  proof -
    have "(i + 1) * (w * 4) \<le> h * (w * 4)" using that by (intro mult_le_mono1) simp
    then show ?thesis using assms by (simp add: scanline_length)
  qed
  then show ?thesis by auto
qed

lemma length_concat_uniform:
  "\<forall>row \<in> set rows. length row = n \<Longrightarrow> length (concat rows) = length rows * n"
  by (induction rows) simp_all

lemma flipY_scanlines:
  assumes "length px = w * h * 4" and "i < h"
  shows "scanline w (concat (rev (map (scanline w px) [0..<h]))) i = scanline w px (h - 1 - i)"
proof -
  have len: "length px = h * (w * 4)" using assms(1) by (simp add: ac_simps)
  let ?rows = "rev (map (scanline w px) [0..<h])"
  have "scanline w (concat ?rows) i = ?rows ! i"
    using scanline_rows_length [OF len] assms(2) by (intro scanline_concat) simp_all
  also have "\<dots> = scanline w px (h - 1 - i)"
    using assms(2) by (simp add: rev_nth)
  finally show ?thesis .
qed

text \<open>
  Claim C6. The flip loop copies source row \<open>i\<close> of the readback, a full scanline of
  \<open>targetWidth * 4\<close> bytes, unchanged to destination row \<open>targetHeight - i - 1\<close>, for every
  \<open>i < targetHeight\<close>; so output row \<open>i\<close> is readback row \<open>targetHeight - 1 - i\<close>. The
  loop raises nothing on a readback of \<open>targetWidth * targetHeight * 4\<close> bytes.
\<close>

theorem flip_row_mapping:
  assumes "length pixels = targetWidth * targetHeight * 4"
  shows "\<exists>flippedPixels.
           flipY (int targetWidth) (int targetHeight) pixels = Some flippedPixels \<and>
           length flippedPixels = targetWidth * targetHeight * 4 \<and>
           (\<forall>i < targetHeight.
              length (scanline targetWidth pixels i) = targetWidth * 4 \<and>
              scanline targetWidth flippedPixels (targetHeight - i - 1) = scanline targetWidth pixels i \<and>
              scanline targetWidth flippedPixels i = scanline targetWidth pixels (targetHeight - 1 - i))"
proof -
  let ?w = targetWidth and ?h = targetHeight
  let ?out = "concat (rev (map (scanline ?w pixels) [0..<?h]))"
  have len: "length pixels = ?h * (?w * 4)" using assms by (simp add: ac_simps)
  have rows: "\<forall>row \<in> set (rev (map (scanline ?w pixels) [0..<?h])). length row = ?w * 4"
    by (rule scanline_rows_length [OF len])
  have "length ?out = ?w * ?h * 4"
    using length_concat_uniform [OF rows] by (simp add: ac_simps)
  moreover have "length (scanline ?w pixels i) = ?w * 4" if "i < ?h" for i
    using rows that by simp
  moreover have "scanline ?w ?out (?h - i - 1) = scanline ?w pixels i" if "i < ?h" for i
  proof -
    have "?h - i - 1 < ?h" and "?h - 1 - (?h - i - 1) = i" using that by simp_all
    with flipY_scanlines [OF assms, of "?h - i - 1"] show ?thesis by simp
  qed
  moreover have "scanline ?w ?out i = scanline ?w pixels (?h - 1 - i)" if "i < ?h" for i
    using flipY_scanlines [OF assms that] .
  ultimately show ?thesis
    using flipY_rows [OF assms] by simp
qed

text \<open>
  Claim C9. The flip is an involution: for every width \<open>w\<close>, height \<open>h\<close> and RGBA
  buffer of \<open>w * h * 4\<close> bytes, flipping twice gives the buffer back; the rows of the
  flipped buffer are the rows of the buffer in reverse order, none lost and none doubled.
\<close>

theorem flip_involution:
  assumes "length buf = w * h * 4"
  shows "\<exists>out. flipY (int w) (int h) buf = Some out \<and> flipY (int w) (int h) out = Some buf \<and>
               map (scanline w out) [0..<h] = rev (map (scanline w buf) [0..<h])"
proof -
  let ?out = "concat (rev (map (scanline w buf) [0..<h]))"
  have len: "length buf = h * (w * 4)" using assms by (simp add: ac_simps)
  have rows: "\<forall>row \<in> set (rev (map (scanline w buf) [0..<h])). length row = w * 4"
    by (rule scanline_rows_length [OF len])
  have len_out: "length ?out = w * h * 4"
    using length_concat_uniform [OF rows] by (simp add: ac_simps)
  have rows_out: "map (scanline w ?out) [0..<h] = rev (map (scanline w buf) [0..<h])"
  proof (rule nth_equalityI)
    show "length (map (scanline w ?out) [0..<h]) = length (rev (map (scanline w buf) [0..<h]))"
      by simp
  next
    fix i assume "i < length (map (scanline w ?out) [0..<h])"
    then have i: "i < h" by simp
    then show "map (scanline w ?out) [0..<h] ! i = rev (map (scanline w buf) [0..<h]) ! i"
      using flipY_scanlines [OF assms i] by (simp add: rev_nth)
  qed
  have "flipY (int w) (int h) ?out = Some (concat (rev (map (scanline w ?out) [0..<h])))"
    by (rule flipY_rows [OF len_out])
  also have "\<dots> = Some (concat (map (scanline w buf) [0..<h]))"
    by (simp only: rows_out rev_rev_ident)
  also have "\<dots> = Some buf"
    using len by (simp add: concat_scanlines)
  finally have "flipY (int w) (int h) ?out = Some buf" .
  with flipY_rows [OF assms] rows_out show ?thesis by simp
qed

theorem flip_row_mapping_witness:
  "length [1, 2, 3, 4, 5, 6, 7, 8 :: byte] = 1 * 2 * 4 \<and> (0 :: nat) < 2 \<and>
   (\<exists>flippedPixels. flipY 1 2 [1, 2, 3, 4, 5, 6, 7, 8] = Some flippedPixels \<and>
      scanline 1 flippedPixels (2 - 0 - 1) = scanline 1 [1, 2, 3, 4, 5, 6, 7, 8] 0)"
proof -
  have len: "length [1, 2, 3, 4, 5, 6, 7, 8 :: byte] = 1 * 2 * 4" by simp
  from flip_row_mapping [OF len] show ?thesis by auto
qed

theorem flip_involution_witness:
  "length [1, 2, 3, 4, 5, 6, 7, 8 :: byte] = 1 * 2 * 4 \<and>
   (\<exists>out. flipY 1 2 [1, 2, 3, 4, 5, 6, 7, 8] = Some out \<and>
      flipY 1 2 out = Some [1, 2, 3, 4, 5, 6, 7, 8])"
proof -
  have len: "length [1, 2, 3, 4, 5, 6, 7, 8 :: byte] = 1 * 2 * 4" by simp
  from flip_involution [OF len] show ?thesis by auto
qed

subsection \<open>Numbers: signs and the values used below\<close>

lemma pow2_pos: "0 < pow2 e"
  by (simp add: pow2_def)

lemma round_half_even_nonneg: "0 \<le> r \<Longrightarrow> 0 \<le> round_half_even r"
  by (auto simp: round_half_even_def Let_def intro: add_nonneg_nonneg)

lemma fl_nonneg: "0 \<le> x \<Longrightarrow> 0 \<le> fl x"
proof (cases "x = 0")
  case True
  then show ?thesis by (simp add: fl_def)
next
  case False
  assume "0 \<le> x"
  with False have x: "0 < x" by simp
  let ?u = "pow2 (binade \<bar>x\<bar> - 52)"
  have "0 \<le> \<bar>x\<bar> / ?u" using pow2_pos [of "binade \<bar>x\<bar> - 52"] by simp
  then have "0 \<le> round_half_even (\<bar>x\<bar> / ?u)" by (rule round_half_even_nonneg)
  then have "0 \<le> (of_int (round_half_even (\<bar>x\<bar> / ?u)) :: rat) * ?u"
    using pow2_pos [of "binade \<bar>x\<bar> - 52"] by (intro mult_nonneg_nonneg) simp_all
  with x False show ?thesis by (simp add: fl_def Let_def)
qed

lemma fmul_nonneg: "0 \<le> a \<Longrightarrow> 0 \<le> b \<Longrightarrow> 0 \<le> fmul a b"
  unfolding fmul_def by (intro fl_nonneg mult_nonneg_nonneg)

lemma fmul_zero: "fmul 0 b = 0"
  by (simp add: fmul_def fl_def)

lemma scaled_nonneg: "0 \<le> s \<Longrightarrow> 0 \<le> c \<Longrightarrow> 0 \<le> scaled c s"
  unfolding scaled_def by (simp add: fmul_nonneg)

lemma scaled_zero: "scaled 0 s = 0"
  by (simp add: scaled_def fmul_zero)

lemma pad_nonneg: "0 \<le> b \<Longrightarrow> 0 \<le> s \<Longrightarrow> 0 \<le> \<lceil>fmul (fmul b s) 3\<rceil>"
proof -
  assume "0 \<le> b" and "0 \<le> s"
  then have "0 \<le> fmul (fmul b s) 3" by (intro fmul_nonneg) simp_all
  then show ?thesis by (simp add: ceiling_le_iff [symmetric] le_ceiling_iff)
qed

text \<open>
  The products are rounded as binary64 rounds them: \<^verbatim>\<open>45 * 1.4\<close> is just below 63 and
  \<^verbatim>\<open>5 * 1.2\<close> is 6; \<^verbatim>\<open>50 * 1.1 * 3\<close> is just above 165 and \<^verbatim>\<open>10 * 1.1 * 3\<close> is 33.
\<close>

lemma rounded_scalings: "scaled 45 (7 / 5) = 62 \<and> scaled 5 (6 / 5) = 6"
  by code_simp

lemma rounded_paddings:
  "\<lceil>fmul (fmul 50 (11 / 10)) 3\<rceil> = 166 \<and> \<lceil>fmul (fmul 10 (11 / 10)) 3\<rceil> = 33"
  by code_simp

text \<open>Products of small integers are exact.\<close>

lemma scaled_2_1: "scaled 2 1 = 2"
  by code_simp

lemma scaled_2_2: "scaled 2 2 = 4"
  by code_simp

lemma scaled_poster: "scaled 300 64 = 19200 \<and> scaled 400 64 = 25600"
  by code_simp

lemma pad_1_1: "\<lceil>fmul (fmul 1 1) 3\<rceil> = 3 \<and> fmul 1 1 = 1"
  by code_simp


text \<open>
  At the blur radii 1, 40 and 100 and the scale factors 1, 2 and 4 the padding is the
  ceiling of the exact product (for 40 and 2 see \<open>pad_40_2\<close>).
\<close>

lemma listed_paddings:
  "\<lceil>fmul (fmul 1 1) 3\<rceil> = 3" "\<lceil>fmul (fmul 1 2) 3\<rceil> = 6" "\<lceil>fmul (fmul 1 4) 3\<rceil> = 12"
  "\<lceil>fmul (fmul 40 1) 3\<rceil> = 120" "\<lceil>fmul (fmul 40 4) 3\<rceil> = 480"
  "\<lceil>fmul (fmul 100 1) 3\<rceil> = 300" "\<lceil>fmul (fmul 100 2) 3\<rceil> = 600"
  "\<lceil>fmul (fmul 100 4) 3\<rceil> = 1200"
  by code_simp+

subsection \<open>getCanvasDataURL: helper facts\<close>

lemmas gcd_defs = getCanvasDataURL_def restore_def renderFrame_def set_canvas_size_def
  getContext2d_def blur_export_def createCanvas_def Let_def

lemma new_ImageData_size:
  assumes "new_ImageData bytes sw sh = Inr img"
  shows "img = \<lparr>data = bytes, iwidth = sw, iheight = sh\<rparr> \<and> 0 < sw \<and> 0 < sh"
proof -
  from assms have ok: "length bytes \<noteq> 0" "length bytes mod 4 = 0" "0 < sw"
      "int (length bytes div 4) mod sw = 0" "int (length bytes div 4) div sw = sh"
      and img: "img = \<lparr>data = bytes, iwidth = sw, iheight = sh\<rparr>"
    by (auto simp: new_ImageData_def split: if_splits)
  from ok(1,2) have "0 < length bytes div 4" by presburger
  then have pos: "0 < int (length bytes div 4)" by simp
  have "sw \<le> int (length bytes div 4)"
    using ok(3,4) pos by (intro zdvd_imp_le) auto
  then have "0 < int (length bytes div 4) div sw"
    using ok(3) by (simp only: pos_imp_zdiv_pos_iff)
  with ok(5) img ok(3) show ?thesis by simp
qed

lemma new_ImageData_ok:
  assumes "0 < sw" and "0 < sh" and "length bytes = nat sw * nat sh * 4"
  shows "new_ImageData bytes sw sh = Inr \<lparr>data = bytes, iwidth = sw, iheight = sh\<rparr>"
proof -
  have "0 < nat sw * nat sh" using assms(1,2) by simp
  then have "length bytes \<noteq> 0" using assms(3) by simp
  moreover have "length bytes mod 4 = 0" using assms(3) by simp
  moreover have "int (length bytes div 4) = sw * sh"
    using assms by simp
  ultimately show ?thesis using assms(1) by (simp add: new_ImageData_def)
qed

text \<open>The readback of a frame, its rows in reverse order.\<close>

lemma capture_pixels_rows:
  assumes "0 \<le> tw" and "0 \<le> th"
  shows "capture_pixels env tw th t =
           Inr (concat (rev (map (scanline (nat tw)
                  (readPixels env tw th t (new_Uint8Array (nat (tw * th * 4))))) [0..<nat th])))"
proof -
  let ?px = "readPixels env tw th t (new_Uint8Array (nat (tw * th * 4)))"
  have n: "nat (tw * th * 4) = nat tw * nat th * 4"
    using assms by (simp add: nat_mult_distrib)
  have "length ?px = nat tw * nat th * 4"
    by (simp add: readPixels_def new_Uint8Array_def n)
  from flipY_rows [OF this] assms
  have "flipY tw th ?px = Some (concat (rev (map (scanline (nat tw) ?px) [0..<nat th])))"
    by simp
  moreover have "0 \<le> tw * th" using assms by (rule mult_nonneg_nonneg)
  then have "\<not> tw * th * 4 < 0" by (simp add: ac_simps)
  ultimately show ?thesis by (simp add: capture_pixels_def Let_def)
qed

lemma capture_pixels_length:
  assumes "0 \<le> tw" and "0 \<le> th" and "capture_pixels env tw th t = Inr flipped"
  shows "length flipped = nat tw * nat th * 4"
proof -
  let ?px = "readPixels env tw th t (new_Uint8Array (nat (tw * th * 4)))"
  have n: "nat (tw * th * 4) = nat tw * nat th * 4"
    using assms by (simp add: nat_mult_distrib)
  have len: "length ?px = nat th * (nat tw * 4)"
    by (simp add: readPixels_def new_Uint8Array_def n)
  have "length (concat (rev (map (scanline (nat tw) ?px) [0..<nat th]))) = nat th * (nat tw * 4)"
    using length_concat_uniform [OF scanline_rows_length [OF len]] by simp
  with assms(3) capture_pixels_rows [OF assms(1,2), of env t] show ?thesis by simp
qed

text \<open>What a call that returns a string has passed through.\<close>

lemma getCanvasDataURL_Some:
  assumes "canvasRef st = Some canvas"
    and "getCanvasDataURL env st scaleFactor blurRadius = (Return (Some url), st')"
  defines "tw \<equiv> scaled (clientWidth canvas) scaleFactor"
    and "th \<equiv> scaled (clientHeight canvas) scaleFactor"
  obtains flipped where
    "glRef st \<noteq> None" "programRef st \<noteq> None"
    "0 < tw" "0 < th"
    "capture_pixels env tw th (timeRef st) = Inr flipped"
    "new_ImageData flipped tw th = Inr \<lparr>data = flipped, iwidth = tw, iheight = th\<rparr>"
    "context2d_available env (length (contexts2d st))"
proof -
  from assms(1,2) obtain flipped img where
    init: "glRef st \<noteq> None" "programRef st \<noteq> None"
    and cap: "capture_pixels env tw th (timeRef st) = Inr flipped"
    and img: "new_ImageData flipped tw th = Inr img"
    and ctx: "context2d_available env (length (contexts2d st))"
    unfolding tw_def th_def
    by (auto simp: gcd_defs split: option.splits sum.splits prod.splits if_splits)
  from new_ImageData_size [OF img] img init cap ctx that show thesis by simp
qed

text \<open>
  The capture of a frame of positive size: the flipped readback and the image data made
  of it.
\<close>

lemma capture_ok:
  fixes env :: environment and t :: rat
  assumes "0 < tw" and "0 < th"
  defines "flipped \<equiv> concat (rev (map (scanline (nat tw)
             (readPixels env tw th t (new_Uint8Array (nat (tw * th * 4))))) [0..<nat th]))"
  shows "capture_pixels env tw th t = Inr flipped"
    and "new_ImageData flipped tw th = Inr \<lparr>data = flipped, iwidth = tw, iheight = th\<rparr>"
proof -
  from assms(1,2) have nonneg: "0 \<le> tw" "0 \<le> th" by simp_all
  show cap: "capture_pixels env tw th t = Inr flipped"
    unfolding flipped_def by (rule capture_pixels_rows [OF nonneg])
  have "length flipped = nat tw * nat th * 4"
    by (rule capture_pixels_length [OF nonneg cap])
  then show "new_ImageData flipped tw th = Inr \<lparr>data = flipped, iwidth = tw, iheight = th\<rparr>"
    by (rule new_ImageData_ok [OF assms(1,2)])
qed

text \<open>
  With a target of positive size the call returns: nothing it does raises. It returns a
  string when the capture canvas yields a context, and null when it does not.
\<close>

lemma getCanvasDataURL_returns:
  assumes "glRef st = Some gl" and "programRef st = Some program" and "canvasRef st = Some canvas"
    and "0 < scaled (clientWidth canvas) scaleFactor"
    and "0 < scaled (clientHeight canvas) scaleFactor"
  shows "\<exists>r. fst (getCanvasDataURL env st scaleFactor blurRadius) = Return r"
  using assms(1-3) capture_ok [OF assms(4,5), of env "timeRef st"]
  by (auto simp: gcd_defs split: option.splits prod.splits)

lemma getCanvasDataURL_returns_url:
  assumes "glRef st = Some gl" and "programRef st = Some program" and "canvasRef st = Some canvas"
    and "0 < scaled (clientWidth canvas) scaleFactor"
    and "0 < scaled (clientHeight canvas) scaleFactor"
    and "context2d_available env (length (contexts2d st))"
  shows "\<exists>url. fst (getCanvasDataURL env st scaleFactor blurRadius) = Return (Some url)"
  using assms(1-3,6) capture_ok [OF assms(4,5), of env "timeRef st"]
  by (auto simp: gcd_defs split: option.splits prod.splits)

lemma missing_capture_context_returns_null:
  assumes "glRef st = Some gl" and "programRef st = Some program" and "canvasRef st = Some canvas"
    and "0 \<le> scaled (clientWidth canvas) scaleFactor"
    and "0 \<le> scaled (clientHeight canvas) scaleFactor"
    and "\<not> context2d_available env (length (contexts2d st))"
  shows "fst (getCanvasDataURL env st scaleFactor blurRadius) = Return None"
    and "canvasRef (snd (getCanvasDataURL env st scaleFactor blurRadius)) = Some canvas"
    and "frames (snd (getCanvasDataURL env st scaleFactor blurRadius)) = frames st @
           [(scaled (clientWidth canvas) scaleFactor, scaled (clientHeight canvas) scaleFactor,
             timeRef st),
            (width canvas, height canvas, timeRef st)]"
  using assms(1-3,6) capture_pixels_rows [OF assms(4,5), of env "timeRef st"]
  by (simp_all add: gcd_defs)

text \<open>
  Where no blur is asked for, or a context of the blur stage is missing, line 175 returns
  the capture canvas as it is.
\<close>

lemma getCanvasDataURL_unblurred:
  assumes "glRef st = Some gl" and "programRef st = Some program" and "canvasRef st = Some canvas"
    and "0 < scaled (clientWidth canvas) scaleFactor"
    and "0 < scaled (clientHeight canvas) scaleFactor"
    and "context2d_available env (length (contexts2d st))"
    and "\<not> 0 < blurRadius \<or> \<not> context2d_available env (length (contexts2d st) + 1) \<or>
         \<not> context2d_available env (length (contexts2d st) + 2)"
  shows "fst (getCanvasDataURL env st scaleFactor blurRadius) =
           Return (Some (PNG (Canvas2D (scaled (clientWidth canvas) scaleFactor)
             (scaled (clientHeight canvas) scaleFactor)
             [PutImageData
                \<lparr>data = concat (rev (map (scanline (nat (scaled (clientWidth canvas) scaleFactor))
                           (readPixels env (scaled (clientWidth canvas) scaleFactor)
                              (scaled (clientHeight canvas) scaleFactor) (timeRef st)
                              (new_Uint8Array (nat (scaled (clientWidth canvas) scaleFactor *
                                 scaled (clientHeight canvas) scaleFactor * 4)))))
                           [0..<nat (scaled (clientHeight canvas) scaleFactor)])),
                 iwidth = scaled (clientWidth canvas) scaleFactor,
                 iheight = scaled (clientHeight canvas) scaleFactor\<rparr> 0 0])))"
    and "canvasRef (snd (getCanvasDataURL env st scaleFactor blurRadius)) = Some canvas"
  using assms(1-3,6,7) assms(4,5) capture_ok [OF assms(4,5), of env "timeRef st"]
  by (auto simp: gcd_defs toDataURL_def putImageData_def add_draw_def)

text \<open>
  A canvas without layout width makes \<^verbatim>\<open>new ImageData\<close> raise after the live canvas was
  resized: the call leaves by the exception, the size not put back.
\<close>

lemma zero_sized_capture_throws:
  assumes "glRef st = Some gl" and "programRef st = Some program" and "canvasRef st = Some canvas"
    and "clientWidth canvas = 0" and "0 \<le> clientHeight canvas" and "0 \<le> scaleFactor"
    and "context2d_available env (length (contexts2d st))"
  shows "fst (getCanvasDataURL env st scaleFactor blurRadius) = Throw InvalidStateError \<and>
         canvasRef (snd (getCanvasDataURL env st scaleFactor blurRadius)) =
           Some (canvas\<lparr>width := 0, height := scaled (clientHeight canvas) scaleFactor\<rparr>)"
proof -
  let ?th = "scaled (clientHeight canvas) scaleFactor"
  have tw: "scaled (clientWidth canvas) scaleFactor = 0" using assms(4) by (simp add: scaled_zero)
  have th: "0 \<le> ?th" using assms(5,6) by (simp add: scaled_nonneg)
  have cap: "capture_pixels env 0 ?th (timeRef st) = Inr []"
    using capture_pixels_rows [OF order_refl th, of env "timeRef st"]
    by (simp add: scanline_def subarray_def)
  have img: "new_ImageData [] 0 ?th = Inl InvalidStateError"
    by (simp add: new_ImageData_def)
  show ?thesis
    using assms(1-3,7) cap img by (simp add: gcd_defs tw)
qed

subsection \<open>The padded canvas\<close>

lemma source_over_blank: "source_over s transparent = Some s"
  by (simp add: source_over_def)

lemma capture_canvas_determined:
  "canvas_pixel (Canvas2D w h [PutImageData img dx dy]) x y \<noteq> None"
  by (simp del: not_None_eq)

lemma capture_canvas_pixel:
  assumes "0 \<le> x" and "x < w" and "0 \<le> y" and "y < h"
  shows "canvas_pixel (Canvas2D w h [PutImageData \<lparr>data = bytes, iwidth = w, iheight = h\<rparr> 0 0]) x y =
           Some (image_pixel \<lparr>data = bytes, iwidth = w, iheight = h\<rparr> x y)"
  using assms by (simp add: in_rect_def)

lemma clamped_draws:
  "target (assemble_clamped \<lparr>target = Canvas2D W H [], imageSmoothingEnabled = sm, ctx_filter = None\<rparr>
             T tw th pad) =
   Canvas2D W H
     [DrawImage T (0, 0, cwidth T, cheight T) (pad, pad, tw, th) False None,
      DrawImage T (0, 0, 1, th) (0, pad, pad, th) False None,
      DrawImage T (tw - 1, 0, 1, th) (tw + pad, pad, pad, th) False None,
      DrawImage T (0, 0, tw, 1) (pad, 0, tw, pad) False None,
      DrawImage T (0, th - 1, tw, 1) (pad, th + pad, tw, pad) False None,
      DrawImage T (0, 0, 1, 1) (0, 0, pad, pad) False None,
      DrawImage T (tw - 1, 0, 1, 1) (tw + pad, 0, pad, pad) False None,
      DrawImage T (0, th - 1, 1, 1) (0, th + pad, pad, pad) False None,
      DrawImage T (tw - 1, th - 1, 1, 1) (tw + pad, th + pad, pad, pad) False None]"
  by (simp add: assemble_clamped_def drawImage5_def drawImage9_def add_draw_def Let_def)

text \<open>
  Every pixel of the padded canvas is the pixel of the capture nearest to it: the nine
  regions (left, centre, right by top, middle, bottom) are checked one by one.
\<close>

lemma clamped_pixel:
  assumes size: "cwidth T = tw" "cheight T = th"
    and pos: "0 < tw" "0 < th" "0 \<le> pad"
    and det: "\<forall>x y. canvas_pixel T x y \<noteq> None"
    and xy: "0 \<le> x" "x < tw + 2 * pad" "0 \<le> y" "y < th + 2 * pad"
  shows "canvas_pixel
           (target (assemble_clamped
              \<lparr>target = Canvas2D (tw + pad * 2) (th + pad * 2) [], imageSmoothingEnabled = sm,
                 ctx_filter = None\<rparr> T tw th pad)) x y =
         canvas_pixel T (max 0 (min (tw - 1) (x - pad))) (max 0 (min (th - 1) (y - pad)))"
proof -
  define f where "f a b = the (canvas_pixel T a b)" for a b
  have T: "canvas_pixel T a b = Some (f a b)" for a b
    using det by (auto simp: f_def)
  consider (l) "x < pad" | (c) "pad \<le> x" "x < tw + pad" | (r) "tw + pad \<le> x" by linarith
  then show ?thesis
  proof cases
    case l
    consider (t) "y < pad" | (m) "pad \<le> y" "y < th + pad" | (b) "th + pad \<le> y" by linarith
    then show ?thesis
      using l xy pos size
      by cases (simp_all add: clamped_draws in_rect_def T source_over_blank)
  next
    case c
    consider (t) "y < pad" | (m) "pad \<le> y" "y < th + pad" | (b) "th + pad \<le> y" by linarith
    then show ?thesis
      using c xy pos size
      by cases (simp_all add: clamped_draws in_rect_def T source_over_blank)
  next
    case r
    consider (t) "y < pad" | (m) "pad \<le> y" "y < th + pad" | (b) "th + pad \<le> y" by linarith
    then show ?thesis
      using r xy pos size
      by cases (simp_all add: clamped_draws in_rect_def T source_over_blank)
  qed
qed

subsection \<open>The examples\<close>

lemma example_readback: "readPixels (example_env f) w h t px = map of_nat [0..<length px]"
  by (simp add: readPixels_def example_env_def)

lemma example_flipped:
  "concat (rev (map (scanline (nat 2)
      (readPixels (example_env f) 2 2 7 (new_Uint8Array (nat (2 * 2 * 4))))) [0..<nat 2])) =
   [8, 9, 10, 11, 12, 13, 14, 15, 0, 1, 2, 3, 4, 5, 6, 7]"
  unfolding example_readback by code_simp

lemma example_sizes:
  "scaled (clientWidth example_canvas) 1 = 2" "scaled (clientHeight example_canvas) 1 = 2"
  "scaled (clientWidth example_canvas) 2 = 4" "scaled (clientHeight example_canvas) 2 = 4"
  by (simp_all add: example_canvas_def scaled_2_1 scaled_2_2)

lemma example_refs:
  "glRef example_component = Some WebGL" "programRef example_component = Some Program"
  "canvasRef example_component = Some example_canvas" "timeRef example_component = 7"
  "frames example_component = []" "contexts2d example_component = []"
  by (simp_all add: example_component_def)

subsection \<open>getCanvasDataURL: the claims\<close>

text \<open>
  Claim C1, as amended. When getCanvasDataURL returns a string, the string is
  \<^verbatim>\<open>toDataURL\<close> of a canvas \<open>\<lfloor>clientWidth * scaleFactor\<rfloor>\<close> wide and
  \<open>\<lfloor>clientHeight * scaleFactor\<rfloor>\<close> high, the products being the binary64 products of lines
  69 and 70 and the client size that of the live canvas when the call starts; the blur
  radius has no part in it. Where the browser backs a canvas of that size with a bitmap,
  the string holds an image of exactly that size; where it does not, the string holds no
  image, though it is not null.
\<close>

theorem output_dimensions:
  assumes "canvasRef st = Some canvas"
    and "fst (getCanvasDataURL env st scaleFactor blurRadius) = Return (Some url)"
  shows "(\<exists>c. url = PNG c \<and>
            cwidth c = \<lfloor>fmul (of_int (clientWidth canvas)) scaleFactor\<rfloor> \<and>
            cheight c = \<lfloor>fmul (of_int (clientHeight canvas)) scaleFactor\<rfloor>) \<and>
         image_size env url =
           (if bitmap_available env \<lfloor>fmul (of_int (clientWidth canvas)) scaleFactor\<rfloor>
                 \<lfloor>fmul (of_int (clientHeight canvas)) scaleFactor\<rfloor>
            then Some (\<lfloor>fmul (of_int (clientWidth canvas)) scaleFactor\<rfloor>,
                       \<lfloor>fmul (of_int (clientHeight canvas)) scaleFactor\<rfloor>)
            else None)"
proof -
  from assms have c: "\<exists>c. url = PNG c \<and>
      cwidth c = \<lfloor>fmul (of_int (clientWidth canvas)) scaleFactor\<rfloor> \<and>
      cheight c = \<lfloor>fmul (of_int (clientHeight canvas)) scaleFactor\<rfloor>"
    by (auto simp: gcd_defs scaled_def toDataURL_def putImageData_def add_draw_def drawImage3_def
          drawImage9_def
        split: option.splits sum.splits prod.splits if_splits dest!: new_ImageData_size)
  then show ?thesis by (auto simp: image_size_def)
qed

theorem output_dimensions_witness:
  "canvasRef example_component = Some example_canvas \<and>
   returns_url (fst (getCanvasDataURL (example_env all_contexts) example_component 2 1)) \<and>
   exported_image_size (example_env all_contexts)
     (fst (getCanvasDataURL (example_env all_contexts) example_component 2 1)) = Some (4, 4)"
proof -
  let ?E = "example_env all_contexts"
  let ?R = "getCanvasDataURL ?E example_component 2 1"
  have ctx: "context2d_available ?E (length (contexts2d example_component))"
    by (simp add: example_env_def all_contexts_def)
  have pos: "0 < scaled (clientWidth example_canvas) 2" "0 < scaled (clientHeight example_canvas) 2"
    by (simp_all add: example_sizes)
  from getCanvasDataURL_returns_url [OF example_refs(1-3) pos ctx]
  obtain url where r: "fst ?R = Return (Some url)" by blast
  have w: "\<lfloor>fmul (of_int (clientWidth example_canvas)) 2\<rfloor> = 4"
    and h: "\<lfloor>fmul (of_int (clientHeight example_canvas)) 2\<rfloor> = 4"
    using example_sizes(3,4) by (simp_all only: scaled_def)
  have "bitmap_available ?E 4 4" by (simp add: example_env_def browser_limit_def)
  with output_dimensions [OF example_refs(3) r] have "image_size ?E url = Some (4, 4)"
    unfolding w h by simp
  with r example_refs(3) show ?thesis
    by (simp add: returns_url_def exported_image_size_def)
qed

text \<open>
  The claim C1 as stated fails where the browser does not back the canvas: at 300 by 400
  and a scale factor of 64 the call returns a string, and the string holds no image of
  19200 by 25600.
\<close>

theorem oversized_export_counterexample:
  "returns_url (fst (getCanvasDataURL (example_env all_contexts) poster_component 64 0)) \<and>
   exported_image_size (example_env all_contexts)
     (fst (getCanvasDataURL (example_env all_contexts) poster_component 64 0)) = None \<and>
   exported_image_size (example_env all_contexts)
     (fst (getCanvasDataURL (example_env all_contexts) poster_component 64 0)) \<noteq>
     Some (\<lfloor>of_int (clientWidth poster_canvas) * (64 :: rat)\<rfloor>,
           \<lfloor>of_int (clientHeight poster_canvas) * (64 :: rat)\<rfloor>)"
proof -
  let ?E = "example_env all_contexts"
  let ?R = "getCanvasDataURL ?E poster_component 64 0"
  have refs: "glRef poster_component = Some WebGL" "programRef poster_component = Some Program"
    "canvasRef poster_component = Some poster_canvas"
    by (simp_all add: poster_component_def)
  have tw: "scaled (clientWidth poster_canvas) 64 = 19200"
    and th: "scaled (clientHeight poster_canvas) 64 = 25600"
    by (simp_all add: poster_canvas_def scaled_poster)
  have pos: "0 < scaled (clientWidth poster_canvas) 64" "0 < scaled (clientHeight poster_canvas) 64"
    by (simp_all add: tw th)
  have ctx: "context2d_available ?E (length (contexts2d poster_component))"
    by (simp add: example_env_def all_contexts_def)
  have blur: "\<not> (0 :: rat) < 0 \<or> \<not> context2d_available ?E (length (contexts2d poster_component) + 1) \<or>
      \<not> context2d_available ?E (length (contexts2d poster_component) + 2)"
    by simp
  from getCanvasDataURL_unblurred(1) [OF refs pos ctx blur]
  obtain ds where r: "fst ?R = Return (Some (PNG (Canvas2D 19200 25600 ds)))"
    unfolding tw th by blast
  have "\<not> bitmap_available ?E 19200 25600"
    by (simp add: example_env_def browser_limit_def)
  then have "image_size ?E (PNG (Canvas2D 19200 25600 ds)) = None"
    by (simp add: image_size_def)
  with r show ?thesis
    by (simp add: returns_url_def exported_image_size_def)
qed

text \<open>
  Claim C2. Every call on an initialised component that returns (with an image or with
  null) leaves the live canvas with the width and height it had before the call, and the
  last thing it drew is a frame of that size: the frame log grows by the capture frame and
  then the restored frame.
\<close>

theorem returns_restore_canvas:
  assumes "glRef st = Some gl" and "programRef st = Some program" and "canvasRef st = Some canvas"
    and "getCanvasDataURL env st scaleFactor blurRadius = (Return r, st')"
  shows "\<exists>canvas'. canvasRef st' = Some canvas' \<and>
           width canvas' = width canvas \<and> height canvas' = height canvas \<and>
           frames st' = frames st @
             [(scaled (clientWidth canvas) scaleFactor,
               scaled (clientHeight canvas) scaleFactor, timeRef st),
              (width canvas, height canvas, timeRef st)]"
  using assms
  by (auto simp: gcd_defs split: option.splits sum.splits prod.splits if_splits)

theorem returns_restore_canvas_witness:
  "glRef example_component = Some WebGL \<and> programRef example_component = Some Program \<and>
   canvasRef example_component = Some example_canvas \<and>
   fst (getCanvasDataURL (example_env no_context) example_component 2 40) = Return None \<and>
   (\<exists>canvas'. canvasRef (snd (getCanvasDataURL (example_env no_context) example_component 2 40))
        = Some canvas' \<and> width canvas' = 3 \<and> height canvas' = 3) \<and>
   frames (snd (getCanvasDataURL (example_env no_context) example_component 2 40)) =
     [(4, 4, 7), (3, 3, 7)]"
proof -
  let ?R = "getCanvasDataURL (example_env no_context) example_component 2 40"
  note g = example_refs(1) and p = example_refs(2) and c = example_refs(3)
  have nonneg: "0 \<le> scaled (clientWidth example_canvas) 2"
      "0 \<le> scaled (clientHeight example_canvas) 2"
    by (simp_all add: example_sizes)
  have ctx: "\<not> context2d_available (example_env no_context) (length (contexts2d example_component))"
    by (simp add: example_env_def no_context_def)
  have f: "fst ?R = Return None"
    by (rule missing_capture_context_returns_null(1) [OF g p c nonneg ctx])
  then have r: "?R = (Return None, snd ?R)" by (metis prod.collapse)
  from returns_restore_canvas [OF g p c r]
  have "(\<exists>canvas'. canvasRef (snd ?R) = Some canvas' \<and> width canvas' = 3 \<and> height canvas' = 3) \<and>
        frames (snd ?R) = [(4, 4, 7), (3, 3, 7)]"
    by (auto simp: example_canvas_def example_refs scaled_2_2)
  with g p c f show ?thesis by blast
qed

text \<open>
  Claim C3. When a 2D context is missing, getCanvasDataURL should return null. With
  \<open>blurRadius > 0\<close> and no context for the padded canvas it returns a string instead: the
  unblurred capture, as line 175 encodes it. (Where the capture canvas itself yields no
  context, null is returned and the live canvas restored: see
  \<open>missing_capture_context_returns_null\<close>.)
\<close>

theorem missing_clamp_context_returns_unblurred:
  "\<not> context2d_available (example_env first_context_only)
        (length (contexts2d example_component) + 1) \<and>
   fst (getCanvasDataURL (example_env first_context_only) example_component 1 1) =
     Return (Some (PNG (Canvas2D 2 2
       [PutImageData \<lparr>data = [8, 9, 10, 11, 12, 13, 14, 15, 0, 1, 2, 3, 4, 5, 6, 7],
                       iwidth = 2, iheight = 2\<rparr> 0 0]))) \<and>
   fst (getCanvasDataURL (example_env first_context_only) example_component 1 1) \<noteq> Return None"
proof -
  let ?E = "example_env first_context_only"
  have pos: "0 < scaled (clientWidth example_canvas) 1" "0 < scaled (clientHeight example_canvas) 1"
    by (simp_all add: example_sizes)
  have ctx: "context2d_available ?E (length (contexts2d example_component))"
    by (simp add: example_env_def first_context_only_def example_refs)
  have missing: "\<not> context2d_available ?E (length (contexts2d example_component) + 1)"
    by (simp add: example_env_def first_context_only_def)
  then have gap: "\<not> (0 :: rat) < 1 \<or>
      \<not> context2d_available ?E (length (contexts2d example_component) + 1) \<or>
      \<not> context2d_available ?E (length (contexts2d example_component) + 2)"
    by simp
  have "fst (getCanvasDataURL ?E example_component 1 1) =
     Return (Some (PNG (Canvas2D 2 2
       [PutImageData \<lparr>data = [8, 9, 10, 11, 12, 13, 14, 15, 0, 1, 2, 3, 4, 5, 6, 7],
                       iwidth = 2, iheight = 2\<rparr> 0 0])))"
    using getCanvasDataURL_unblurred(1) [OF example_refs(1-3) pos ctx gap]
    unfolding example_sizes example_refs example_flipped .
  with missing show ?thesis by simp
qed

text \<open>
  Claim C4. Called while the WebGL context, the program or the canvas element is missing,
  getCanvasDataURL returns null: it does not throw, and the state is the state before the
  call (no resize, no frame drawn).
\<close>

theorem uninitialised_returns_null:
  assumes "glRef st = None \<or> programRef st = None \<or> canvasRef st = None"
  shows "getCanvasDataURL env st scaleFactor blurRadius = (Return None, st)"
  using assms by (auto simp: getCanvasDataURL_def split: option.splits)

theorem uninitialised_returns_null_witness:
  "programRef (example_component\<lparr>programRef := None\<rparr>) = None \<and>
   getCanvasDataURL (example_env all_contexts) (example_component\<lparr>programRef := None\<rparr>) 2 40 =
     (Return None, example_component\<lparr>programRef := None\<rparr>)"
proof -
  have "glRef (example_component\<lparr>programRef := None\<rparr>) = None \<or>
        programRef (example_component\<lparr>programRef := None\<rparr>) = None \<or>
        canvasRef (example_component\<lparr>programRef := None\<rparr>) = None"
    by simp
  from uninitialised_returns_null [OF this] show ?thesis by simp
qed

text \<open>
  Claim C5. With \<open>blurRadius = 0\<close>, the image returned is the PNG of a canvas of the target
  size on which nothing was drawn but the readback with its rows in reverse order; no
  filter is set, and the only 2D context asked for is that of this canvas (no padded
  canvas, no final canvas).
\<close>

theorem unblurred_export:
  assumes "canvasRef st = Some canvas"
    and "getCanvasDataURL env st scaleFactor 0 = (Return (Some url), st')"
  shows "\<exists>pixels flippedPixels.
           pixels = readPixels env (scaled (clientWidth canvas) scaleFactor)
                      (scaled (clientHeight canvas) scaleFactor) (timeRef st)
                      (new_Uint8Array (nat (scaled (clientWidth canvas) scaleFactor *
                                            scaled (clientHeight canvas) scaleFactor * 4))) \<and>
           flippedPixels = concat (rev (map (scanline (nat (scaled (clientWidth canvas) scaleFactor)) pixels)
                              [0..<nat (scaled (clientHeight canvas) scaleFactor)])) \<and>
           url = PNG (Canvas2D (scaled (clientWidth canvas) scaleFactor)
                        (scaled (clientHeight canvas) scaleFactor)
                        [PutImageData \<lparr>data = flippedPixels,
                                        iwidth = scaled (clientWidth canvas) scaleFactor,
                                        iheight = scaled (clientHeight canvas) scaleFactor\<rparr> 0 0]) \<and>
           contexts2d st' = contexts2d st @
             [(scaled (clientWidth canvas) scaleFactor, scaled (clientHeight canvas) scaleFactor)]"
proof -
  let ?tw = "scaled (clientWidth canvas) scaleFactor"
  let ?th = "scaled (clientHeight canvas) scaleFactor"
  from assms obtain flipped where
    init: "glRef st \<noteq> None" "programRef st \<noteq> None"
    and pos: "0 < ?tw" "0 < ?th"
    and cap: "capture_pixels env ?tw ?th (timeRef st) = Inr flipped"
    and img: "new_ImageData flipped ?tw ?th = Inr \<lparr>data = flipped, iwidth = ?tw, iheight = ?th\<rparr>"
    and ctx: "context2d_available env (length (contexts2d st))"
    by (rule getCanvasDataURL_Some)
  from pos have nonneg: "0 \<le> ?tw" "0 \<le> ?th" by simp_all
  from cap capture_pixels_rows [OF nonneg, of env "timeRef st"]
  have flipped: "flipped = concat (rev (map (scanline (nat ?tw)
      (readPixels env ?tw ?th (timeRef st) (new_Uint8Array (nat (?tw * ?th * 4))))) [0..<nat ?th]))"
    by simp
  from assms init cap img ctx pos
  have "url = PNG (Canvas2D ?tw ?th [PutImageData \<lparr>data = flipped, iwidth = ?tw, iheight = ?th\<rparr> 0 0])"
    and "contexts2d st' = contexts2d st @ [(?tw, ?th)]"
    by (auto simp: gcd_defs toDataURL_def putImageData_def add_draw_def)
  with flipped show ?thesis by simp
qed

theorem unblurred_export_witness:
  "canvasRef example_component = Some example_canvas \<and>
   fst (getCanvasDataURL (example_env all_contexts) example_component 1 0) =
     Return (Some (PNG (Canvas2D 2 2
       [PutImageData \<lparr>data = [8, 9, 10, 11, 12, 13, 14, 15, 0, 1, 2, 3, 4, 5, 6, 7],
                       iwidth = 2, iheight = 2\<rparr> 0 0]))) \<and>
   contexts2d (snd (getCanvasDataURL (example_env all_contexts) example_component 1 0)) = [(2, 2)]"
proof -
  let ?E = "example_env all_contexts"
  let ?R = "getCanvasDataURL ?E example_component 1 0"
  let ?url = "PNG (Canvas2D 2 2
       [PutImageData \<lparr>data = [8, 9, 10, 11, 12, 13, 14, 15, 0, 1, 2, 3, 4, 5, 6, 7],
                       iwidth = 2, iheight = 2\<rparr> 0 0])"
  note c = example_refs(3)
  have pos: "0 < scaled (clientWidth example_canvas) 1" "0 < scaled (clientHeight example_canvas) 1"
    by (simp_all add: example_sizes)
  have ctx: "context2d_available ?E (length (contexts2d example_component))"
    by (simp add: example_env_def all_contexts_def)
  have blur: "\<not> (0 :: rat) < 0 \<or>
      \<not> context2d_available ?E (length (contexts2d example_component) + 1) \<or>
      \<not> context2d_available ?E (length (contexts2d example_component) + 2)"
    by simp
  have f: "fst ?R = Return (Some ?url)"
    using getCanvasDataURL_unblurred(1) [OF example_refs(1-3) pos ctx blur]
    unfolding example_sizes example_refs example_flipped .
  then have r: "?R = (Return (Some ?url), snd ?R)" by (metis prod.collapse)
  from unblurred_export [OF c r]
  have "contexts2d (snd ?R) = contexts2d example_component @
      [(scaled (clientWidth example_canvas) 1, scaled (clientHeight example_canvas) 1)]"
    by blast
  then have "contexts2d (snd ?R) = [(2, 2)]"
    by (simp add: example_refs example_sizes)
  with f c show ?thesis by simp
qed



text \<open>
  Claim C8. In the blur path (both further contexts available, a string returned), the
  string is that of the final canvas, on which the padded canvas was drawn at
  \<open>(- pad, - pad)\<close> under the blur filter. The padded canvas was assembled with smoothing
  off by nine draws from the captured image (the capture canvas, holding the flipped
  readback): the whole capture to \<open>(pad, pad)\<close>; its left and right columns, one pixel
  wide, stretched over the strips of \<open>pad\<close> by \<open>targetHeight\<close>; its top and bottom rows
  stretched over the strips of \<open>targetWidth\<close> by \<open>pad\<close>; its four corner pixels stretched
  over the corner squares of \<open>pad\<close> by \<open>pad\<close>. In effect every pixel of the padded canvas
  is the pixel of the captured image nearest to it.
\<close>

theorem blur_path_clamped_buffer:
  assumes "canvasRef st = Some canvas"
    and "0 < blurRadius" and "0 < scaleFactor"
    and "context2d_available env (length (contexts2d st) + 1)"
    and "context2d_available env (length (contexts2d st) + 2)"
    and "getCanvasDataURL env st scaleFactor blurRadius = (Return (Some url), st')"
  shows "let targetWidth = scaled (clientWidth canvas) scaleFactor;
             targetHeight = scaled (clientHeight canvas) scaleFactor;
             scaledBlur = fmul blurRadius scaleFactor;
             pad = \<lceil>fmul scaledBlur 3\<rceil>;
             pixels = readPixels env targetWidth targetHeight (timeRef st)
                        (new_Uint8Array (nat (targetWidth * targetHeight * 4)));
             imageData = \<lparr>data = concat (rev (map (scanline (nat targetWidth) pixels)
                                               [0..<nat targetHeight])),
                          iwidth = targetWidth, iheight = targetHeight\<rparr>;
             tempCanvas = Canvas2D targetWidth targetHeight [PutImageData imageData 0 0];
             clamped = Canvas2D (targetWidth + pad * 2) (targetHeight + pad * 2)
                [DrawImage tempCanvas (0, 0, targetWidth, targetHeight)
                   (pad, pad, targetWidth, targetHeight) False None,
                 DrawImage tempCanvas (0, 0, 1, targetHeight) (0, pad, pad, targetHeight) False None,
                 DrawImage tempCanvas (targetWidth - 1, 0, 1, targetHeight)
                   (targetWidth + pad, pad, pad, targetHeight) False None,
                 DrawImage tempCanvas (0, 0, targetWidth, 1) (pad, 0, targetWidth, pad) False None,
                 DrawImage tempCanvas (0, targetHeight - 1, targetWidth, 1)
                   (pad, targetHeight + pad, targetWidth, pad) False None,
                 DrawImage tempCanvas (0, 0, 1, 1) (0, 0, pad, pad) False None,
                 DrawImage tempCanvas (targetWidth - 1, 0, 1, 1)
                   (targetWidth + pad, 0, pad, pad) False None,
                 DrawImage tempCanvas (0, targetHeight - 1, 1, 1)
                   (0, targetHeight + pad, pad, pad) False None,
                 DrawImage tempCanvas (targetWidth - 1, targetHeight - 1, 1, 1)
                   (targetWidth + pad, targetHeight + pad, pad, pad) False None]
         in url = PNG (Canvas2D targetWidth targetHeight
                    [DrawImage clamped (0, 0, targetWidth + pad * 2, targetHeight + pad * 2)
                       (- pad, - pad, targetWidth + pad * 2, targetHeight + pad * 2)
                       True (Some scaledBlur)]) \<and>
            (\<forall>x y. 0 \<le> x \<and> x < targetWidth + pad * 2 \<and> 0 \<le> y \<and> y < targetHeight + pad * 2 \<longrightarrow>
               canvas_pixel clamped x y =
                 Some (image_pixel imageData (max 0 (min (targetWidth - 1) (x - pad)))
                         (max 0 (min (targetHeight - 1) (y - pad)))))"
proof -
  define tw where "tw = scaled (clientWidth canvas) scaleFactor"
  define th where "th = scaled (clientHeight canvas) scaleFactor"
  define sb where "sb = fmul blurRadius scaleFactor"
  define pad where "pad = \<lceil>fmul sb 3\<rceil>"
  define flipped where "flipped = concat (rev (map (scanline (nat tw)
      (readPixels env tw th (timeRef st) (new_Uint8Array (nat (tw * th * 4))))) [0..<nat th]))"
  define img where "img = \<lparr>data = flipped, iwidth = tw, iheight = th\<rparr>"
  define T where "T = Canvas2D tw th [PutImageData img 0 0]"
  define P where "P = target (assemble_clamped
      \<lparr>target = Canvas2D (tw + pad * 2) (th + pad * 2) [], imageSmoothingEnabled = True,
         ctx_filter = None\<rparr> T tw th pad)"
  from assms(1,6) obtain flipped' where
    init: "glRef st \<noteq> None" "programRef st \<noteq> None"
    and pos: "0 < tw" "0 < th"
    and cap': "capture_pixels env tw th (timeRef st) = Inr flipped'"
    and ctx: "context2d_available env (length (contexts2d st))"
    unfolding tw_def th_def by (rule getCanvasDataURL_Some)
  note ok = capture_ok [OF pos, of env "timeRef st", folded flipped_def]
  have cap: "capture_pixels env tw th (timeRef st) = Inr flipped" by (rule ok(1))
  have img_ok: "new_ImageData flipped tw th = Inr img" unfolding img_def by (rule ok(2))
  have "0 \<le> pad"
    unfolding pad_def sb_def using assms(2,3) by (intro pad_nonneg) simp_all
  then have pad_pos: "0 \<le> pad" .
  have sizeT: "cwidth T = tw" "cheight T = th" by (simp_all add: T_def)
  have detT: "\<forall>x y. canvas_pixel T x y \<noteq> None"
    unfolding T_def by (simp only: capture_canvas_determined not_False_eq_True simp_thms)
  have dimsP: "cwidth P = tw + pad * 2" "cheight P = th + pad * 2"
    by (simp_all add: P_def clamped_draws)
  have url: "url = PNG (Canvas2D tw th
      [DrawImage P (0, 0, tw + pad * 2, th + pad * 2) (- pad, - pad, tw + pad * 2, th + pad * 2)
         True (Some sb)])"
    using assms init cap img_ok ctx pos dimsP
    by (auto simp: gcd_defs toDataURL_def putImageData_def add_draw_def drawImage3_def
        drawImage9_def tw_def [symmetric] th_def [symmetric] sb_def [symmetric]
        pad_def [symmetric] T_def [symmetric] P_def [symmetric])
  have drawsP: "P = Canvas2D (tw + pad * 2) (th + pad * 2)
     [DrawImage T (0, 0, tw, th) (pad, pad, tw, th) False None,
      DrawImage T (0, 0, 1, th) (0, pad, pad, th) False None,
      DrawImage T (tw - 1, 0, 1, th) (tw + pad, pad, pad, th) False None,
      DrawImage T (0, 0, tw, 1) (pad, 0, tw, pad) False None,
      DrawImage T (0, th - 1, tw, 1) (pad, th + pad, tw, pad) False None,
      DrawImage T (0, 0, 1, 1) (0, 0, pad, pad) False None,
      DrawImage T (tw - 1, 0, 1, 1) (tw + pad, 0, pad, pad) False None,
      DrawImage T (0, th - 1, 1, 1) (0, th + pad, pad, pad) False None,
      DrawImage T (tw - 1, th - 1, 1, 1) (tw + pad, th + pad, pad, pad) False None]"
    unfolding P_def clamped_draws sizeT ..
  have pixels: "canvas_pixel P x y =
      Some (image_pixel img (max 0 (min (tw - 1) (x - pad))) (max 0 (min (th - 1) (y - pad))))"
    if xy: "0 \<le> x" "x < tw + pad * 2" "0 \<le> y" "y < th + pad * 2" for x y
  proof -
    have "canvas_pixel P x y =
        canvas_pixel T (max 0 (min (tw - 1) (x - pad))) (max 0 (min (th - 1) (y - pad)))"
      unfolding P_def using xy pad_pos
      by (intro clamped_pixel [OF sizeT pos _ detT]) simp_all
    also have "\<dots> = Some (image_pixel img (max 0 (min (tw - 1) (x - pad)))
        (max 0 (min (th - 1) (y - pad))))"
      unfolding T_def img_def using pos
      by (intro capture_canvas_pixel) auto
    finally show ?thesis .
  qed
  show ?thesis
    unfolding Let_def tw_def [symmetric] th_def [symmetric] sb_def [symmetric]
      pad_def [symmetric] flipped_def [symmetric] img_def [symmetric] T_def [symmetric]
      drawsP [symmetric]
    using url pixels by blast
qed

theorem blur_path_clamped_buffer_witness:
  "canvasRef example_component = Some example_canvas \<and> (0 :: rat) < 1 \<and>
   context2d_available (example_env all_contexts) (length (contexts2d example_component) + 1) \<and>
   context2d_available (example_env all_contexts) (length (contexts2d example_component) + 2) \<and>
   (\<exists>clamped.
      fst (getCanvasDataURL (example_env all_contexts) example_component 1 1) =
        Return (Some (PNG (Canvas2D 2 2
          [DrawImage clamped (0, 0, 8, 8) (- 3, - 3, 8, 8) True (Some 1)]))) \<and>
      cwidth clamped = 8 \<and>
      draws clamped ! 1 =
        DrawImage (Canvas2D 2 2
            [PutImageData \<lparr>data = [8, 9, 10, 11, 12, 13, 14, 15, 0, 1, 2, 3, 4, 5, 6, 7],
                            iwidth = 2, iheight = 2\<rparr> 0 0])
          (0, 0, 1, 2) (0, 3, 3, 2) False None \<and>
      canvas_pixel clamped 0 0 = Some (8, 9, 10, 11) \<and>
      canvas_pixel clamped 7 4 = Some (4, 5, 6, 7))"
proof -
  let ?E = "example_env all_contexts"
  let ?R = "getCanvasDataURL ?E example_component 1 1"
  let ?img = "\<lparr>data = [8, 9, 10, 11, 12, 13, 14, 15, 0, 1, 2, 3, 4, 5, 6, 7 :: byte],
                iwidth = 2, iheight = 2\<rparr>"
  let ?T = "Canvas2D 2 2 [PutImageData ?img 0 0]"
  let ?P = "Canvas2D (2 + 3 * 2) (2 + 3 * 2)
        [DrawImage ?T (0, 0, 2, 2) (3, 3, 2, 2) False None,
         DrawImage ?T (0, 0, 1, 2) (0, 3, 3, 2) False None,
         DrawImage ?T (2 - 1, 0, 1, 2) (2 + 3, 3, 3, 2) False None,
         DrawImage ?T (0, 0, 2, 1) (3, 0, 2, 3) False None,
         DrawImage ?T (0, 2 - 1, 2, 1) (3, 2 + 3, 2, 3) False None,
         DrawImage ?T (0, 0, 1, 1) (0, 0, 3, 3) False None,
         DrawImage ?T (2 - 1, 0, 1, 1) (2 + 3, 0, 3, 3) False None,
         DrawImage ?T (0, 2 - 1, 1, 1) (0, 2 + 3, 3, 3) False None,
         DrawImage ?T (2 - 1, 2 - 1, 1, 1) (2 + 3, 2 + 3, 3, 3) False None]"
  note c = example_refs(3)
  have b: "(0 :: rat) < 1" by simp
  have ctx: "context2d_available ?E (length (contexts2d example_component))"
    and c1: "context2d_available ?E (length (contexts2d example_component) + 1)"
    and c2: "context2d_available ?E (length (contexts2d example_component) + 2)"
    by (simp_all add: example_env_def all_contexts_def)
  have pos: "0 < scaled (clientWidth example_canvas) 1" "0 < scaled (clientHeight example_canvas) 1"
    by (simp_all add: example_sizes)
  from getCanvasDataURL_returns_url [OF example_refs(1-3) pos ctx]
  obtain url where f: "fst ?R = Return (Some url)" by blast
  then have r: "?R = (Return (Some url), snd ?R)" by (metis prod.collapse)
  have sb: "fmul 1 1 = 1" by (rule pad_1_1 [THEN conjunct2])
  have pad: "\<lceil>fmul 1 3\<rceil> = 3" using pad_1_1 [THEN conjunct1] unfolding sb .
  note inst = blur_path_clamped_buffer [OF c b b c1 c2 r, unfolded Let_def example_sizes
      example_refs sb pad example_flipped]
  have url: "url = PNG (Canvas2D 2 2
        [DrawImage ?P (0, 0, 2 + 3 * 2, 2 + 3 * 2) (- 3, - 3, 2 + 3 * 2, 2 + 3 * 2) True (Some 1)])"
    by (rule inst [THEN conjunct1])
  note px = inst [THEN conjunct2]
  have "canvas_pixel ?P 0 0 =
      Some (image_pixel ?img (max 0 (min (2 - 1) (0 - 3))) (max 0 (min (2 - 1) (0 - 3))))"
    by (rule px [rule_format]) simp
  then have p00: "canvas_pixel ?P 0 0 = Some (8, 9, 10, 11)"
    by (simp add: image_pixel_def)
  have "canvas_pixel ?P 7 4 =
      Some (image_pixel ?img (max 0 (min (2 - 1) (7 - 3))) (max 0 (min (2 - 1) (4 - 3))))"
    by (rule px [rule_format]) simp
  then have p74: "canvas_pixel ?P 7 4 = Some (4, 5, 6, 7)"
    by (simp add: image_pixel_def)
  have d: "cwidth ?P = 8" and d1: "draws ?P ! 1 = DrawImage ?T (0, 0, 1, 2) (0, 3, 3, 2) False None"
    by simp_all
  from f url have "fst ?R = Return (Some (PNG (Canvas2D 2 2
        [DrawImage ?P (0, 0, 8, 8) (- 3, - 3, 8, 8) True (Some 1)])))"
    by simp
  with d d1 p00 p74 c b c1 c2 show ?thesis by blast
qed

subsection \<open>generateCreativeContent: the claims\<close>

lemma fallback_shape: "shape_ok (fallback lang)"
  by (simp add: shape_ok_def fallback_def)

lemma try_generate_shape: "try_generate env mood lang = Inr parsed \<Longrightarrow> shape_ok parsed"
  by (auto simp: try_generate_def split: if_splits option.splits sum.splits)

lemma truthy_string: "truthy v \<Longrightarrow> v = Some (JStr s) \<Longrightarrow> s \<noteq> []"
  by (cases s) auto

text \<open>Each way the body of the \<^verbatim>\<open>try\<close> can fail ends in the fallback object.\<close>

lemma failures_give_fallback:
  assumes "API_KEY env = None \<or> API_KEY env = Some [] \<or> fetch env mood lang = None \<or>
           (\<exists>res. fetch env mood lang = Some res \<and>
              (\<not> ok res \<or> body_json res = None \<or>
               (\<exists>json. body_json res = Some json \<and>
                  (\<not> truthy (extract_raw json) \<or>
                   (\<exists>raw. extract_raw json = Some raw \<and>
                      ((\<exists>e. parse_response env raw = Inl e) \<or>
                       (\<exists>parsed. parse_response env raw = Inr parsed \<and> \<not> shape_ok parsed)))))))"
  shows "generateCreativeContent env mood lang = Resolved (fallback lang)"
  using assms
  by (auto simp: generateCreativeContent_def try_generate_def
      split: option.splits sum.splits if_splits)

text \<open>
  Claim C10, as amended. generateCreativeContent never rejects: for every service, mood
  and language it resolves, with the fallback object or with the parsed object that the
  body of the \<^verbatim>\<open>try\<close> returned. The resolved value has a \<open>colors\<close> array of exactly 5
  entries and a title and a subtitle that are truthy, hence non-empty whenever they are
  strings.
\<close>

theorem never_rejects:
  "\<exists>v. generateCreativeContent env mood lang = Resolved v \<and>
       (v = fallback lang \<or> try_generate env mood lang = Inr v) \<and>
       is_array_of_5 (get_prop (Some v) ''colors'') \<and>
       truthy (get_prop (Some v) ''title'') \<and> truthy (get_prop (Some v) ''subtitle'') \<and>
       (\<forall>s. get_prop (Some v) ''title'' = Some (JStr s) \<longrightarrow> s \<noteq> []) \<and>
       (\<forall>s. get_prop (Some v) ''subtitle'' = Some (JStr s) \<longrightarrow> s \<noteq> [])"
proof (cases "try_generate env mood lang")
  case (Inl e)
  then have "generateCreativeContent env mood lang = Resolved (fallback lang)"
    by (simp add: generateCreativeContent_def)
  moreover note fallback_shape [of lang]
  ultimately show ?thesis
    unfolding shape_ok_def by (auto dest: truthy_string)
next
  case (Inr parsed)
  then have "generateCreativeContent env mood lang = Resolved parsed"
    by (simp add: generateCreativeContent_def)
  moreover note try_generate_shape [OF Inr]
  ultimately show ?thesis
    using Inr unfolding shape_ok_def by (auto dest: truthy_string)
qed

theorem never_rejects_witness:
  "generateCreativeContent (example_service None) ''calm'' En = Resolved (fallback En) \<and>
   get_prop (Some (fallback En)) ''title'' = Some (JStr ''Error Generating'') \<and>
   ''Error Generating'' \<noteq> [] \<and>
   truthy (get_prop (Some (fallback En)) ''subtitle'') \<and>
   is_array_of_5 (get_prop (Some (fallback En)) ''colors'')"
proof -
  have r: "generateCreativeContent (example_service None) ''calm'' En = Resolved (fallback En)"
    by code_simp
  have title: "get_prop (Some (fallback En)) ''title'' = Some (JStr ''Error Generating'')"
    by (simp add: fallback_def)
  from never_rejects [of "example_service None" "''calm''" En] r
  have shape: "truthy (get_prop (Some (fallback En)) ''subtitle'')"
      "is_array_of_5 (get_prop (Some (fallback En)) ''colors'')"
    and strings: "\<forall>s. get_prop (Some (fallback En)) ''title'' = Some (JStr s) \<longrightarrow> s \<noteq> []"
    by auto
  from strings title have "''Error Generating'' \<noteq> []" by blast
  with r title shape show ?thesis by blast
qed

text \<open>
  The claim C10 as stated fails for a reply whose title is the empty array: it passes the
  check of line 222 and is returned, and its title is not a non-empty string.
\<close>

theorem empty_title_counterexample:
  "generateCreativeContent (example_service (Some ''key'')) ''calm'' En = Resolved reply_value \<and>
   get_prop (Some reply_value) ''title'' = Some (JArr []) \<and>
   \<not> nonempty_string (get_prop (Some reply_value) ''title'')"
  by code_simp

end
